theory Spec2Isabelle
  imports Main "HOL-Library.Sublist" "HOL-Library.List_Lexorder" "HOL-Library.Char_ord"
    "HOL-Library.Multiset"
begin

section \<open>Strings and paths of the host platform\<close>

text \<open>
  JavaScript strings are modelled as \<^typ>\<open>string\<close>. The tools only build paths
  from a folder and one file-name segment, so \<open>path.join\<close> is modelled for that
  use: no normalisation of \<open>.\<close>, \<open>..\<close> or repeated separators.
\<close>

definition path_join :: "string \<Rightarrow> string \<Rightarrow> string" where
  "path_join dir seg = dir @ ''/'' @ seg"

text \<open>
  The last segment of a path, trailing separators ignored, and \<open>path.extname\<close> as
  Node's POSIX implementation computes it: the part of the last segment from its last
  dot on, empty when there is no dot, when the dot is the first character of the
  segment, or when the segment is \<open>..\<close>.
\<close>

definition last_segment :: "string \<Rightarrow> string" where
  "last_segment p =
     rev (takeWhile (\<lambda>c. c \<noteq> CHR ''/'') (dropWhile (\<lambda>c. c = CHR ''/'') (rev p)))"

definition extname :: "string \<Rightarrow> string" where
  "extname p =
     (let seg = last_segment p;
          ext = rev (takeWhile (\<lambda>c. c \<noteq> CHR ''.'') (rev seg));
          stem = take (length seg - length ext - 1) seg
      in if CHR ''.'' \<notin> set seg \<or> stem = [] \<or> seg = ''..'' then [] else CHR ''.'' # ext)"

text \<open>
  \<open>path.basename(p, suffix)\<close> for the calls the tools make: the suffix is empty, or
  the last segment has an extension as long as the suffix. The suffix is removed when
  the segment ends with it and is longer than it.
\<close>

definition basename :: "string \<Rightarrow> string \<Rightarrow> string" where
  "basename p sfx =
     (let seg = last_segment p in
      if sfx \<noteq> [] \<and> suffix sfx seg \<and> length sfx < length seg
      then take (length seg - length sfx) seg else seg)"

text \<open>
  \<open>toLowerCase\<close> on the ASCII letters. The tools only compare the lowered text with
  ASCII extensions (\<open>.pdf\<close>, \<open>.png\<close>, ...), and no other character lowers to one of
  their letters.
\<close>

definition lower_char :: "char \<Rightarrow> char" where
  "lower_char c =
     (if CHR ''A'' \<le> c \<and> c \<le> CHR ''Z'' then char_of (of_char c + (32 :: nat)) else c)"

definition toLowerCase :: "string \<Rightarrow> string" where
  "toLowerCase s = map lower_char s"

definition startsWith :: "string \<Rightarrow> string \<Rightarrow> bool" where
  "startsWith s p = prefix p s"

text \<open>
  \<open>trim\<close> removes white space and line terminators at both ends; of the characters
  of \<^typ>\<open>char\<close> these are tab, line feed, vertical tab, form feed, carriage return,
  space and the no-break space.
\<close>

definition js_space :: "char \<Rightarrow> bool" where
  "js_space c \<longleftrightarrow>
     c \<in> {CHR 0x09, CHR 0x0A, CHR 0x0B, CHR 0x0C, CHR 0x0D, CHR 0x20, CHR 0xA0}"

definition trim :: "string \<Rightarrow> string" where
  "trim s = rev (dropWhile js_space (rev (dropWhile js_space s)))"

text \<open>A number as JavaScript prints it, for the natural numbers.\<close>

fun decimal :: "nat \<Rightarrow> string" where
  "decimal n =
     (if n < 10 then [char_of (48 + n)] else decimal (n div 10) @ [char_of (48 + n mod 10)])"

declare decimal.simps [simp del]

definition padStart :: "nat \<Rightarrow> char \<Rightarrow> string \<Rightarrow> string" where
  "padStart n c s = replicate (n - length s) c @ s"

text \<open>
  \<open>s.replace(pat, rep)\<close> with a string pattern: the first occurrence of \<open>pat\<close> is
  replaced. The replacement is always a printed number here, so it holds no \<open>$\<close>.
\<close>

fun replace_first :: "string \<Rightarrow> string \<Rightarrow> string \<Rightarrow> string" where
  "replace_first pat rep [] = (if pat = [] then rep else [])"
| "replace_first pat rep (c # cs) =
     (if prefix pat (c # cs) then rep @ drop (length pat) (c # cs)
      else c # replace_first pat rep cs)"

text \<open>
  \<open>xs.slice(s, e)\<close> on integers: a negative index counts from the end, and both
  ends are clamped to the array.
\<close>

definition js_slice :: "'a list \<Rightarrow> int \<Rightarrow> int \<Rightarrow> 'a list" where
  "js_slice xs s e =
     (let len = int (length xs);
          k = (if s < 0 then max (len + s) 0 else min s len);
          final = (if e < 0 then max (len + e) 0 else min e len)
      in take (nat (final - k)) (drop (nat k) xs))"

definition or_default :: "'a option \<Rightarrow> 'a \<Rightarrow> 'a" where
  "or_default v d = (case v of None \<Rightarrow> d | Some x \<Rightarrow> x)"

section \<open>The retention cleaner (cli/file-cleaner.js)\<close>

subsection \<open>The file system the cleaner sees\<close>

text \<open>
  What \<open>fs.promises.stat\<close>, \<open>readdir\<close>, \<open>unlink\<close> and \<open>rmdir\<close> report
  about one path. \<open>Unstat\<close> is an entry whose \<open>stat\<close> rejects (\<open>getFileStats\<close>
  then gives \<open>null\<close>). A file carries its modification time in milliseconds, its size
  and the message of the error \<open>unlink\<close> raises on it, if any. A directory carries its
  modification time, its entries and the message \<open>rmdir\<close> raises on it, if any;
  \<open>DirUnreadable\<close> is a directory whose \<open>readdir\<close> rejects with the given message.
\<close>

datatype fsnode =
    Unstat
  | FileN int nat "string option"
  | DirN int "(string \<times> fsnode) list" "string option"
  | DirUnreadable int string "string option"

fun isDirectory :: "fsnode \<Rightarrow> bool" where
  "isDirectory (DirN m es d) = True"
| "isDirectory (DirUnreadable m msg d) = True"
| "isDirectory n = False"

fun mtime :: "fsnode \<Rightarrow> int" where
  "mtime (FileN m s d) = m"
| "mtime (DirN m es d) = m"
| "mtime (DirUnreadable m msg d) = m"
| "mtime Unstat = 0"

fun stat_size :: "fsnode \<Rightarrow> nat" where
  "stat_size (FileN m s d) = s"
| "stat_size n = 0"

fun delete_error :: "fsnode \<Rightarrow> string option" where
  "delete_error (FileN m s d) = d"
| "delete_error (DirN m es d) = d"
| "delete_error (DirUnreadable m msg d) = d"
| "delete_error Unstat = None"

text \<open>
  \<open>getDirectorySize\<close>: the sizes of the files below a directory, recursively. Entries
  whose \<open>stat\<close> fails are skipped; a \<open>readdir\<close> failure is caught and leaves the total
  accumulated so far, which is 0 because \<open>readdir\<close> is the first call.
\<close>

fun getDirectorySize :: "fsnode \<Rightarrow> nat"
  and dirSizeEntries :: "(string \<times> fsnode) list \<Rightarrow> nat" where
  "getDirectorySize (DirN m es d) = dirSizeEntries es"
| "getDirectorySize (DirUnreadable m msg d) = 0"
| "getDirectorySize (FileN m s d) = 0"
| "getDirectorySize Unstat = 0"
| "dirSizeEntries [] = 0"
| "dirSizeEntries (e # es) =
     (case snd e of
        Unstat \<Rightarrow> dirSizeEntries es
      | FileN m s d \<Rightarrow> s + dirSizeEntries es
      | DirN m sub d \<Rightarrow> getDirectorySize (snd e) + dirSizeEntries es
      | DirUnreadable m msg d \<Rightarrow> getDirectorySize (snd e) + dirSizeEntries es)"

record cworld =
  fs :: "string \<Rightarrow> fsnode option"
  now :: int

subsection \<open>The cleaner object\<close>

record cleaner_options =
  uploadsRetentionDays :: int
  outputRetentionDays :: int
  tempRetentionHours :: int
  logsRetentionDays :: int
  dryRun :: bool
  verbose :: bool

record cleanup_stats =
  uploadsCleaned :: nat
  outputsCleaned :: nat
  tempsCleaned :: nat
  logsCleaned :: nat
  totalSizeFreed :: nat
  errors :: "string list"

record file_cleaner =
  options :: cleaner_options
  baseDir :: string
  stats :: cleanup_stats

text \<open>
  The argument of the constructor: a key that is absent is \<open>None\<close>. The constructor
  writes the defaults and then spreads the given options over them, so a key that is
  present wins whatever its value (0 included).
\<close>

record cleaner_args =
  arg_uploadsRetentionDays :: "int option"
  arg_outputRetentionDays :: "int option"
  arg_tempRetentionHours :: "int option"
  arg_logsRetentionDays :: "int option"
  arg_dryRun :: "bool option"
  arg_verbose :: "bool option"
  arg_baseDir :: "string option"

text \<open>\<open>parent_dir\<close> stands for \<open>path.join(__dirname, '..')\<close>.\<close>

definition FileCleaner :: "string \<Rightarrow> cleaner_args \<Rightarrow> file_cleaner" where
  "FileCleaner parent_dir a =
     \<lparr> options =
         \<lparr> uploadsRetentionDays = or_default (arg_uploadsRetentionDays a) 1,
           outputRetentionDays = or_default (arg_outputRetentionDays a) 7,
           tempRetentionHours = or_default (arg_tempRetentionHours a) 2,
           logsRetentionDays = or_default (arg_logsRetentionDays a) 30,
           dryRun = or_default (arg_dryRun a) False,
           verbose = or_default (arg_verbose a) False \<rparr>,
       baseDir = (case arg_baseDir a of
                    None \<Rightarrow> parent_dir
                  | Some b \<Rightarrow> if b = [] then parent_dir else b),
       stats =
         \<lparr> uploadsCleaned = 0, outputsCleaned = 0, tempsCleaned = 0, logsCleaned = 0,
           totalSizeFreed = 0, errors = [] \<rparr> \<rparr>"

subsection \<open>cleanDirectory\<close>

record cleaned =
  count :: nat
  size_freed :: nat

text \<open>
  The state of the loop over the entries of one directory: the running \<open>cleaned\<close>
  record, the entries still on disk (in listing order) and \<open>this.stats.errors\<close>.
\<close>

record clean_loop =
  acc :: cleaned
  kept :: "(string \<times> fsnode) list"
  errs :: "string list"

text \<open>
  One iteration of \<open>for (const file of files)\<close>. \<open>filePattern\<close> is \<open>null\<close> or a
  regular expression, given by its \<open>test\<close> function.
\<close>

definition clean_entry ::
  "bool \<Rightarrow> int \<Rightarrow> int \<Rightarrow> (string \<Rightarrow> bool) option \<Rightarrow> string \<times> fsnode \<Rightarrow> clean_loop \<Rightarrow> clean_loop" where
  "clean_entry dry clock maxAgeMs filePattern e st =
     (let file = fst e; node = snd e; keep = st\<lparr>kept := kept st @ [e]\<rparr> in
      if file = ''.gitkeep'' then keep
      else if node = Unstat then keep
      else if (case filePattern of None \<Rightarrow> False | Some test \<Rightarrow> \<not> test file) then keep
      else
        let fileAge = clock - mtime node in
        if fileAge > maxAgeMs then
          let fileSize = (if isDirectory node then getDirectorySize node else stat_size node);
              counted = \<lparr> count = count (acc st) + 1, size_freed = size_freed (acc st) + fileSize \<rparr>
          in
          if \<not> dry then
            (case delete_error node of
               None \<Rightarrow> st\<lparr>acc := counted\<rparr>
             | Some msg \<Rightarrow> keep\<lparr>errs := errs st @ [file @ '': '' @ msg]\<rparr>)
          else keep\<lparr>acc := counted\<rparr>
        else keep)"

fun clean_entries ::
  "bool \<Rightarrow> int \<Rightarrow> int \<Rightarrow> (string \<Rightarrow> bool) option \<Rightarrow> (string \<times> fsnode) list \<Rightarrow> clean_loop \<Rightarrow> clean_loop" where
  "clean_entries dry clock maxAgeMs filePattern [] st = st"
| "clean_entries dry clock maxAgeMs filePattern (e # es) st =
     clean_entries dry clock maxAgeMs filePattern es (clean_entry dry clock maxAgeMs filePattern e st)"

text \<open>
  \<open>cleanDirectory(dirPath, maxAgeMs, filePattern)\<close> returns the \<open>cleaned\<close> record and
  leaves the cleaner (its error list) and the world updated. A path that does not exist
  is skipped; a \<open>readdir\<close> failure is caught by the outer handler, which records
  \<open>dirPath: message\<close>. The clock is read once per pass.
\<close>

definition enotdir :: "string \<Rightarrow> string" where
  "enotdir dirPath = ''ENOTDIR: not a directory, scandir '' @ dirPath"

definition push_error :: "string \<Rightarrow> file_cleaner \<Rightarrow> file_cleaner" where
  "push_error msg c = c\<lparr>stats := (stats c)\<lparr>errors := errors (stats c) @ [msg]\<rparr>\<rparr>"

definition cleanDirectory ::
  "string \<Rightarrow> int \<Rightarrow> (string \<Rightarrow> bool) option \<Rightarrow> file_cleaner \<Rightarrow> cworld \<Rightarrow> cleaned \<times> file_cleaner \<times> cworld" where
  "cleanDirectory dirPath maxAgeMs filePattern c w =
     (let none = \<lparr> count = 0, size_freed = 0 \<rparr> in
      case fs w dirPath of
        None \<Rightarrow> (none, c, w)
      | Some Unstat \<Rightarrow> (none, c, w)
      | Some (FileN m s d) \<Rightarrow> (none, push_error (dirPath @ '': '' @ enotdir dirPath) c, w)
      | Some (DirUnreadable m msg d) \<Rightarrow> (none, push_error (dirPath @ '': '' @ msg) c, w)
      | Some (DirN m es d) \<Rightarrow>
          (let st = clean_entries (dryRun (options c)) (now w) maxAgeMs filePattern es
                      \<lparr> acc = none, kept = [], errs = errors (stats c) \<rparr>
           in (acc st,
               c\<lparr>stats := (stats c)\<lparr>errors := errs st\<rparr>\<rparr>,
               w\<lparr>fs := (fs w)(dirPath \<mapsto> DirN m (kept st) d)\<rparr>)))"

subsection \<open>The four areas and runCleanup\<close>

definition logPattern :: "string \<Rightarrow> bool" where
  "logPattern file = suffix ''.log'' file"

definition cleanUploads :: "file_cleaner \<Rightarrow> cworld \<Rightarrow> cleaned \<times> file_cleaner \<times> cworld" where
  "cleanUploads c w =
     (let uploadsDir = path_join (baseDir c) ''uploads'';
          maxAge = uploadsRetentionDays (options c) * 24 * 60 * 60 * 1000;
          (result, c1, w1) = cleanDirectory uploadsDir maxAge None c w
      in (result,
          c1\<lparr>stats := (stats c1)\<lparr>uploadsCleaned := count result,
                                   totalSizeFreed := totalSizeFreed (stats c1) + size_freed result\<rparr>\<rparr>,
          w1))"

definition cleanOutputs :: "file_cleaner \<Rightarrow> cworld \<Rightarrow> cleaned \<times> file_cleaner \<times> cworld" where
  "cleanOutputs c w =
     (let outputDir = path_join (baseDir c) ''output'';
          maxAge = outputRetentionDays (options c) * 24 * 60 * 60 * 1000;
          (result, c1, w1) = cleanDirectory outputDir maxAge None c w
      in (result,
          c1\<lparr>stats := (stats c1)\<lparr>outputsCleaned := count result,
                                   totalSizeFreed := totalSizeFreed (stats c1) + size_freed result\<rparr>\<rparr>,
          w1))"

definition cleanTemp :: "file_cleaner \<Rightarrow> cworld \<Rightarrow> cleaned \<times> file_cleaner \<times> cworld" where
  "cleanTemp c w =
     (let tempDir = path_join (baseDir c) ''temp'';
          maxAge = tempRetentionHours (options c) * 60 * 60 * 1000;
          (result, c1, w1) = cleanDirectory tempDir maxAge None c w
      in (result,
          c1\<lparr>stats := (stats c1)\<lparr>tempsCleaned := count result,
                                   totalSizeFreed := totalSizeFreed (stats c1) + size_freed result\<rparr>\<rparr>,
          w1))"

definition cleanLogs :: "file_cleaner \<Rightarrow> cworld \<Rightarrow> cleaned \<times> file_cleaner \<times> cworld" where
  "cleanLogs c w =
     (let logsDir = path_join (baseDir c) ''logs'';
          maxAge = logsRetentionDays (options c) * 24 * 60 * 60 * 1000;
          (result, c1, w1) = cleanDirectory logsDir maxAge (Some logPattern) c w
      in (result,
          c1\<lparr>stats := (stats c1)\<lparr>logsCleaned := count result,
                                   totalSizeFreed := totalSizeFreed (stats c1) + size_freed result\<rparr>\<rparr>,
          w1))"

text \<open>
  \<open>runCleanup\<close> starts the four passes with \<open>Promise.all\<close>. They work on four
  different directories and update \<open>this.stats\<close> only between suspension points, so
  they are modelled one after the other, in the order in which they are started. The
  value returned is \<open>this.stats\<close>.
\<close>

definition runCleanup :: "file_cleaner \<Rightarrow> cworld \<Rightarrow> cleanup_stats \<times> file_cleaner \<times> cworld" where
  "runCleanup c w =
     (let (r1, c1, w1) = cleanUploads c w;
          (r2, c2, w2) = cleanOutputs c1 w1;
          (r3, c3, w3) = cleanTemp c2 w2;
          (r4, c4, w4) = cleanLogs c3 w3
      in (stats c4, c4, w4))"

section \<open>The conversion tools (cli/pdf-to-text.js, cli/ocr-images.js)\<close>

subsection \<open>The platform: file system, rasteriser, OCR engine\<close>

text \<open>
  An exception of the file system, or one made with \<open>new Error\<close>, is an \<open>Error\<close>
  object with its message. Every call into the platform is recorded as an event, in
  call order.
\<close>

datatype error = Error string

fun message :: "error \<Rightarrow> string" where
  "message (Error m) = m"

text \<open>
  The rasteriser and the OCR engine are libraries, and what they throw or reject with
  is any value. \<open>Thrown e\<close> is a value whose \<open>message\<close> property reads as the
  message of \<open>e\<close> (a thrown string or number has no such property, and its message
  reads as \<open>undefined\<close>). \<open>ThrownNull\<close> and \<open>ThrownUndefined\<close> are \<open>null\<close> and
  \<open>undefined\<close>: reading \<open>error.message\<close> on them throws a \<open>TypeError\<close>, whose
  message is given here as Node words it.
\<close>

datatype thrown = Thrown error | ThrownNull | ThrownUndefined

definition cannot_read :: "string \<Rightarrow> error" where
  "cannot_read v = Error (''Cannot read properties of '' @ v @ '' (reading 'message')'')"

text \<open>
  \<open>catch (error) { console.error(`... ${error.message}`); throw error; }\<close>: the
  value is thrown again, unless reading its message throws first.
\<close>

fun rethrown :: "thrown \<Rightarrow> error" where
  "rethrown (Thrown e) = e"
| "rethrown ThrownNull = cannot_read ''null''"
| "rethrown ThrownUndefined = cannot_read ''undefined''"

datatype event =
    ExistsSync string
  | MkdirSync string
  | StatSync string
  | ReaddirSync string
  | RenameSync string string
  | WriteFileSync string string
  | RmSync string
  | Bulk string string string int int
  | CreateWorker string
  | Recognize string
  | Terminate
  | Launched string
  | Settled string

text \<open>
  The platform answers each call from the history of the calls made so far, so that
  it may change its answers over time (a folder exists once it has been created, an
  engine fails on one page and not on the next). An answer of type \<open>error option\<close> or
  \<open>thrown option\<close> is \<open>None\<close> when the call returns and what it throws otherwise.
  \<open>bulk\<close> is \<open>pdf2pic.fromPath(pdfPath, config).bulk(-1)\<close>; it answers with the
  \<open>path\<close> field of each page result (\<open>None\<close> when the field is missing).
  \<open>createWorker\<close>, \<open>recognize\<close> and \<open>terminate\<close> are the Tesseract session; an
  answer of \<open>recognize\<close> is the text read from the result of the call, or what the
  call or that read throws.
  \<open>dateNow\<close> is the clock and \<open>localeDate\<close> is \<open>new Date().toLocaleString()\<close>.

  The last four fields are the floating-point formatting of the batch report, which
  is left to the platform: \<open>secondsFixed ms\<close> is \<open>(ms / 1000).toFixed(1)\<close>,
  \<open>percentFixed a b\<close> is \<open>((a / b) * 100).toFixed(1)\<close>, \<open>totalFixed ds\<close> is the sum of
  \<open>parseFloat\<close> over the durations \<open>ds\<close> with \<open>toFixed(1)\<close>, and
  \<open>averageFixed ds n\<close> is that sum divided by \<open>n\<close>, with \<open>toFixed(1)\<close>.

  \<open>Launched\<close> and \<open>Settled\<close> are not calls: they mark the start of one document's
  run in the batch tool and the moment its result is recorded.
\<close>

record env =
  existsSync :: "event list \<Rightarrow> string \<Rightarrow> bool"
  mkdirSync :: "event list \<Rightarrow> string \<Rightarrow> error option"
  statIsDirectory :: "event list \<Rightarrow> string \<Rightarrow> error + bool"
  readdirSync :: "event list \<Rightarrow> string \<Rightarrow> error + string list"
  renameSync :: "event list \<Rightarrow> string \<Rightarrow> string \<Rightarrow> error option"
  writeFileSync :: "event list \<Rightarrow> string \<Rightarrow> string \<Rightarrow> error option"
  rmSync :: "event list \<Rightarrow> string \<Rightarrow> error option"
  bulk :: "event list \<Rightarrow> string \<Rightarrow> string \<Rightarrow> string \<Rightarrow> int \<Rightarrow> int \<Rightarrow> thrown + string option list"
  createWorker :: "event list \<Rightarrow> string \<Rightarrow> thrown option"
  recognize :: "event list \<Rightarrow> string \<Rightarrow> thrown + string"
  terminate :: "event list \<Rightarrow> thrown option"
  dateNow :: "event list \<Rightarrow> int"
  localeDate :: "event list \<Rightarrow> string"
  secondsFixed :: "int \<Rightarrow> string"
  percentFixed :: "nat \<Rightarrow> nat \<Rightarrow> string"
  totalFixed :: "string list \<Rightarrow> string"
  averageFixed :: "string list \<Rightarrow> nat \<Rightarrow> string"

subsection \<open>convertPdfToImages (cli/pdf-to-text.js)\<close>

record images_options =
  ci_outputFolder :: "string option"
  ci_imageFormat :: "string option"
  ci_density :: "int option"
  ci_quality :: "int option"

text \<open>\<open>x || d\<close> on a string that may be missing: the empty string is falsy too.\<close>

definition or_else :: "string option \<Rightarrow> string \<Rightarrow> string" where
  "or_else v d = (case v of None \<Rightarrow> d | Some x \<Rightarrow> if x = [] then d else x)"

text \<open>
  The loop that gives the page files their zero-padded names. A page whose result has
  no path, or whose file does not exist, is skipped with a warning; an exception of
  \<open>renameSync\<close> leaves the loop. The handler around the conversion logs the message
  of what was thrown and throws it again.
\<close>

definition save_page ::
  "env \<Rightarrow> string \<Rightarrow> string \<Rightarrow> string option \<Rightarrow> nat \<Rightarrow> string list \<Rightarrow> event list
     \<Rightarrow> error option \<times> string list \<times> event list" where
  "save_page env folder imageFormat result pageNumber savedImages log =
     (let paddedNumber = padStart 3 (CHR ''0'') (decimal pageNumber) in
      case result of
        None \<Rightarrow> (None, savedImages, log)
      | Some originalPath \<Rightarrow>
          if originalPath = [] then (None, savedImages, log)
          else if \<not> existsSync env log originalPath then
            (None, savedImages, log @ [ExistsSync originalPath])
          else
            let log1 = log @ [ExistsSync originalPath];
                newFilename = ''page_'' @ paddedNumber @ ''.'' @ toLowerCase imageFormat;
                newPath = path_join folder newFilename
            in if originalPath \<noteq> newPath then
                 (case renameSync env log1 originalPath newPath of
                    Some e \<Rightarrow> (Some e, savedImages, log1 @ [RenameSync originalPath newPath])
                  | None \<Rightarrow>
                      (None, savedImages @ [newPath], log1 @ [RenameSync originalPath newPath]))
               else (None, savedImages @ [newPath], log1))"

fun save_pages ::
  "env \<Rightarrow> string \<Rightarrow> string \<Rightarrow> string option list \<Rightarrow> nat \<Rightarrow> string list \<Rightarrow> event list
     \<Rightarrow> (error + string list) \<times> event list" where
  "save_pages env folder imageFormat [] pageNumber savedImages log = (Inr savedImages, log)"
| "save_pages env folder imageFormat (result # results) pageNumber savedImages log =
     (case save_page env folder imageFormat result pageNumber savedImages log of
        (Some e, saved, log1) \<Rightarrow> (Inl e, log1)
      | (None, saved, log1) \<Rightarrow>
          save_pages env folder imageFormat results (pageNumber + 1) saved log1)"

text \<open>The result is \<open>{ images, folder }\<close>.\<close>

definition convertPdfToImages ::
  "env \<Rightarrow> string \<Rightarrow> images_options \<Rightarrow> event list
     \<Rightarrow> (error + string list \<times> string) \<times> event list" where
  "convertPdfToImages env pdfPath opts log =
     (let imageFormat = or_default (ci_imageFormat opts) ''png'';
          density = or_default (ci_density opts) 300;
          quality = or_default (ci_quality opts) 100;
          log1 = log @ [ExistsSync pdfPath]
      in
      if \<not> existsSync env log pdfPath then
        (Inl (Error (''PDF file not found: '' @ pdfPath)), log1)
      else
        let pdfName = basename pdfPath (extname pdfPath);
            finalOutputFolder = or_else (ci_outputFolder opts) (pdfName @ ''_images'');
            log2 = log1 @ [ExistsSync finalOutputFolder];
            made = (if \<not> existsSync env log1 finalOutputFolder
                    then (mkdirSync env log2 finalOutputFolder, log2 @ [MkdirSync finalOutputFolder])
                    else (None, log2))
        in
        (case fst made of
           Some e \<Rightarrow> (Inl e, snd made)
         | None \<Rightarrow>
             (let log3 = snd made;
                  format = toLowerCase imageFormat;
                  log4 = log3 @ [Bulk pdfPath finalOutputFolder format density quality]
              in
              (case bulk env log3 pdfPath finalOutputFolder format density quality of
                 Inl t \<Rightarrow> (Inl (rethrown t), log4)
               | Inr results \<Rightarrow>
                   (case save_pages env finalOutputFolder imageFormat results 1 [] log4 of
                      (Inl e, log5) \<Rightarrow> (Inl e, log5)
                    | (Inr savedImages, log5) \<Rightarrow>
                        (Inr (savedImages, finalOutputFolder), log5))))))"

subsection \<open>ocrImages (cli/ocr-images.js and cli/pdf-to-text.js, word for word the same)\<close>

text \<open>
  The options are strings, as the command line and \<open>convertPdfToText\<close> pass them;
  an option that is left out takes its default.
\<close>

record ocr_options =
  oi_outputFile :: "string option"
  oi_language :: "string option"
  oi_pagePrefix :: "string option"
  oi_pageSeparator :: "string option"

definition default_pageSeparator :: string where
  "default_pageSeparator = ''\<newline>\<newline>=== PAGE {pageNumber} ===\<newline>\<newline>''"

definition image_extensions :: "string list" where
  "image_extensions = [''.png'', ''.jpg'', ''.jpeg'', ''.tiff'', ''.bmp'']"

text \<open>The filtered, sorted file set of a folder listing.\<close>

definition image_files :: "string \<Rightarrow> string list \<Rightarrow> string list" where
  "image_files pagePrefix names =
     sort (filter (\<lambda>file. startsWith file pagePrefix)
            (filter (\<lambda>file. toLowerCase (extname file) \<in> set image_extensions) names))"

definition page_separator :: "string \<Rightarrow> nat \<Rightarrow> string" where
  "page_separator pageSeparator pageNumber =
     replace_first ''{pageNumber}'' (decimal pageNumber) pageSeparator"

definition error_marker :: "error \<Rightarrow> string" where
  "error_marker e = ''[ERROR: Could not process this page - '' @ message e @ '']''"

text \<open>
  The body of the page loop. The page is recognised inside its own \<open>try\<close>; the
  handler appends the separator and the error marker, and the loop goes on. The
  handler reads \<open>error.message\<close> first, for its log line: on \<open>null\<close> or
  \<open>undefined\<close> that read throws, and the \<open>TypeError\<close> leaves the handler and the
  loop. The result is the exception that leaves the loop body, or the new \<open>allText\<close>.
\<close>

definition ocr_page ::
  "env \<Rightarrow> string \<Rightarrow> string \<Rightarrow> string \<Rightarrow> nat \<Rightarrow> string \<Rightarrow> event list
     \<Rightarrow> (error + string) \<times> event list" where
  "ocr_page env imagesFolder pageSeparator file pageNumber allText log =
     (let filePath = path_join imagesFolder file;
          separator = page_separator pageSeparator pageNumber
      in
      (case recognize env log filePath of
         Inr text \<Rightarrow> Inr (allText @ separator @ trim text @ ''\<newline>'')
       | Inl (Thrown e) \<Rightarrow> Inr (allText @ separator @ error_marker e @ ''\<newline>'')
       | Inl ThrownNull \<Rightarrow> Inl (cannot_read ''null'')
       | Inl ThrownUndefined \<Rightarrow> Inl (cannot_read ''undefined''),
       log @ [Recognize filePath]))"

fun ocr_pages ::
  "env \<Rightarrow> string \<Rightarrow> string \<Rightarrow> string list \<Rightarrow> nat \<Rightarrow> string \<Rightarrow> event list
     \<Rightarrow> (error + string) \<times> event list" where
  "ocr_pages env imagesFolder pageSeparator [] pageNumber allText log = (Inr allText, log)"
| "ocr_pages env imagesFolder pageSeparator (file # files) pageNumber allText log =
     (case ocr_page env imagesFolder pageSeparator file pageNumber allText log of
        (Inl e, log1) \<Rightarrow> (Inl e, log1)
      | (Inr allText1, log1) \<Rightarrow>
          ocr_pages env imagesFolder pageSeparator files (pageNumber + 1) allText1 log1)"

text \<open>
  \<open>ocrImages\<close>. The worker is terminated by the statement that follows the page
  loop; there is no \<open>finally\<close>. The outer handler logs the message of what was thrown
  and throws it again.
\<close>

definition ocrImages ::
  "env \<Rightarrow> string \<Rightarrow> ocr_options \<Rightarrow> event list \<Rightarrow> (error + string) \<times> event list" where
  "ocrImages env imagesFolder opts log =
     (let outputFile = or_default (oi_outputFile opts) ''ocr_results.txt'';
          language = or_default (oi_language opts) ''ara'';
          pagePrefix = or_default (oi_pagePrefix opts) ''page_'';
          pageSeparator = or_default (oi_pageSeparator opts) default_pageSeparator;
          log1 = log @ [ExistsSync imagesFolder]
      in
      if \<not> existsSync env log imagesFolder then
        (Inl (Error (''Images folder not found: '' @ imagesFolder)), log1)
      else
        (let log2 = log1 @ [ReaddirSync imagesFolder] in
         (case readdirSync env log1 imagesFolder of
            Inl e \<Rightarrow> (Inl e, log2)
          | Inr names \<Rightarrow>
              (let files = image_files pagePrefix names in
               if length files = 0 then
                 (Inl (Error (''No image files found in '' @ imagesFolder)), log2)
               else
                 (let log3 = log2 @ [CreateWorker language] in
                  (case createWorker env log2 language of
                     Some t \<Rightarrow> (Inl (rethrown t), log3)
                   | None \<Rightarrow>
                       (case ocr_pages env imagesFolder pageSeparator files 1 [] log3 of
                          (Inl e, log4) \<Rightarrow> (Inl e, log4)
                        | (Inr allText, log4) \<Rightarrow>
                            (let log5 = log4 @ [Terminate] in
                             (case terminate env log4 of
                                Some t \<Rightarrow> (Inl (rethrown t), log5)
                              | None \<Rightarrow>
                                  (let log6 = log5 @ [WriteFileSync outputFile allText] in
                                   (case writeFileSync env log5 outputFile allText of
                                      Some e \<Rightarrow> (Inl e, log6)
                                    | None \<Rightarrow> (Inr outputFile, log6))))))))))))"

subsection \<open>convertPdfToText (cli/pdf-to-text.js)\<close>

record text_options =
  ct_outputText :: "string option"
  ct_tempImagesFolder :: "string option"
  ct_keepImages :: "bool option"
  ct_imageFormat :: "string option"
  ct_density :: "int option"
  ct_language :: "string option"

text \<open>
  Rasterise, recognise, then remove the image folder unless \<open>keepImages\<close> is set. An
  exception of \<open>rmSync\<close> is caught and only warned about. Any other exception is
  logged and thrown again.
\<close>

definition convertPdfToText ::
  "env \<Rightarrow> string \<Rightarrow> text_options \<Rightarrow> event list \<Rightarrow> (error + string) \<times> event list" where
  "convertPdfToText env pdfPath opts log =
     (let keepImages = or_default (ct_keepImages opts) False;
          imageFormat = or_default (ct_imageFormat opts) ''png'';
          density = or_default (ct_density opts) 300;
          language = or_default (ct_language opts) ''ara''
      in
      (case convertPdfToImages env pdfPath
              \<lparr> ci_outputFolder = ct_tempImagesFolder opts, ci_imageFormat = Some imageFormat,
                ci_density = Some density, ci_quality = None \<rparr> log of
         (Inl e, log1) \<Rightarrow> (Inl e, log1)
       | (Inr (images, folder), log1) \<Rightarrow>
           (let pdfName = basename pdfPath (extname pdfPath);
                finalOutputText = or_else (ct_outputText opts) (pdfName @ ''_ocr_results.txt'')
            in
            (case ocrImages env folder
                    \<lparr> oi_outputFile = Some finalOutputText, oi_language = Some language,
                      oi_pagePrefix = None, oi_pageSeparator = None \<rparr> log1 of
               (Inl e, log2) \<Rightarrow> (Inl e, log2)
             | (Inr resultFile, log2) \<Rightarrow>
                 if \<not> keepImages then
                   (case rmSync env log2 folder of
                      None \<Rightarrow> (Inr resultFile, log2 @ [RmSync folder])
                    | Some warning \<Rightarrow> (Inr resultFile, log2 @ [RmSync folder]))
                 else (Inr resultFile, log2)))))"

section \<open>The batch tool (cli/batch-pdf-to-text.js)\<close>

record pdf_file =
  fullPath :: string
  filename :: string
  pdf_basename :: string

record batch_options =
  bp_outputFolder :: "string option"
  bp_keepImages :: "bool option"
  bp_imageFormat :: "string option"
  bp_density :: "int option"
  bp_language :: "string option"
  bp_concurrent :: "int option"

record success_entry =
  ok_input :: string
  ok_output :: string
  ok_duration :: string

record failure_entry =
  failed_input :: string
  failed_error :: string
  failed_duration :: string

record batch_state =
  results :: "success_entry list"
  failures :: "failure_entry list"
  trace :: "event list"

text \<open>
  The body of the function mapped over a chunk, from the call of \<open>convertPdfToText\<close>
  on: the outcome is pushed on \<open>results\<close> or, in the handler, on \<open>errors\<close> (here
  \<open>failures\<close>). \<open>startTime\<close> was read when the document was launched.
\<close>

definition process_pdf :: "env \<Rightarrow> batch_options \<Rightarrow> pdf_file \<times> int \<Rightarrow> batch_state \<Rightarrow> batch_state" where
  "process_pdf env opts job st =
     (let pdf = fst job; startTime = snd job;
          outputFolder = or_default (bp_outputFolder opts) ''batch_ocr_results'';
          outputTextFile = path_join outputFolder (pdf_basename pdf @ ''_ocr.txt'');
          tempImagesFolder = path_join outputFolder (pdf_basename pdf @ ''_temp_images'')
      in
      (case convertPdfToText env (fullPath pdf)
              \<lparr> ct_outputText = Some outputTextFile,
                ct_tempImagesFolder = Some tempImagesFolder,
                ct_keepImages = Some (or_default (bp_keepImages opts) False),
                ct_imageFormat = Some (or_default (bp_imageFormat opts) ''png''),
                ct_density = Some (or_default (bp_density opts) 300),
                ct_language = Some (or_default (bp_language opts) ''ara'') \<rparr> (trace st) of
         (Inr resultFile, log1) \<Rightarrow>
           st\<lparr> results := results st @
                  [\<lparr> ok_input = filename pdf, ok_output = resultFile,
                     ok_duration = secondsFixed env (dateNow env log1 - startTime) \<rparr>],
               trace := log1 @ [Settled (filename pdf)] \<rparr>
       | (Inl e, log1) \<Rightarrow>
           st\<lparr> failures := failures st @
                  [\<lparr> failed_input = filename pdf, failed_error = message e,
                     failed_duration = secondsFixed env (dateNow env log1 - startTime) \<rparr>],
               trace := log1 @ [Settled (filename pdf)] \<rparr>))"

text \<open>
  \<open>batch.map(async ...)\<close> starts every document of the chunk, in order, and reads
  its \<open>startTime\<close>.
\<close>

fun launch :: "env \<Rightarrow> pdf_file list \<Rightarrow> event list \<Rightarrow> (pdf_file \<times> int) list \<times> event list" where
  "launch env [] log = ([], log)"
| "launch env (pdf # pdfs) log =
     (case launch env pdfs (log @ [Launched (filename pdf)]) of
        (jobs, log1) \<Rightarrow> ((pdf, dateNow env log) # jobs, log1))"

fun settle :: "env \<Rightarrow> batch_options \<Rightarrow> (pdf_file \<times> int) list \<Rightarrow> batch_state \<Rightarrow> batch_state" where
  "settle env opts [] st = st"
| "settle env opts (job # jobs) st = settle env opts jobs (process_pdf env opts job st)"

text \<open>
  One chunk: \<open>await Promise.all(batchPromises)\<close> returns when every document of the
  chunk has settled. The order in which they settle is the platform's; \<open>sched\<close> gives
  it, as a rearrangement of the launched jobs. The runs of one chunk are modelled one
  after the other in that order.
\<close>

definition run_chunk ::
  "env \<Rightarrow> (event list \<Rightarrow> (pdf_file \<times> int) list \<Rightarrow> (pdf_file \<times> int) list) \<Rightarrow> batch_options
     \<Rightarrow> pdf_file list \<Rightarrow> batch_state \<Rightarrow> batch_state" where
  "run_chunk env sched opts batch st =
     (case launch env batch (trace st) of
        (jobs, log1) \<Rightarrow> settle env opts (sched log1 jobs) (st\<lparr>trace := log1\<rparr>))"

text \<open>
  \<open>for (let i = 0; i < pdfFiles.length; i += concurrent)\<close>. The loop does not end
  when \<open>concurrent\<close> is 0 or negative.
\<close>

partial_function (option) process_chunks ::
  "env \<Rightarrow> (event list \<Rightarrow> (pdf_file \<times> int) list \<Rightarrow> (pdf_file \<times> int) list) \<Rightarrow> batch_options
     \<Rightarrow> pdf_file list \<Rightarrow> int \<Rightarrow> int \<Rightarrow> batch_state \<Rightarrow> batch_state option" where
  "process_chunks env sched opts pdfFiles concurrent i st =
     (if i < int (length pdfFiles) then
        process_chunks env sched opts pdfFiles concurrent (i + concurrent)
          (run_chunk env sched opts (js_slice pdfFiles i (i + concurrent)) st)
      else Some st)"

declare process_chunks.simps [code]

text \<open>An integer as JavaScript prints it, and \<open>x || d\<close> on a number that may be missing.\<close>

definition js_int :: "int \<Rightarrow> string" where
  "js_int n = (if n < 0 then ''-'' @ decimal (nat (- n)) else decimal (nat n))"

definition or_else_int :: "int option \<Rightarrow> int \<Rightarrow> int" where
  "or_else_int v d = (case v of None \<Rightarrow> d | Some x \<Rightarrow> if x = 0 then d else x)"

fun success_lines :: "nat \<Rightarrow> success_entry list \<Rightarrow> string" where
  "success_lines index [] = []"
| "success_lines index (r # rs) =
     decimal (index + 1) @ ''. '' @ ok_input r @ ''\<newline>'' @
     ''   Output: '' @ basename (ok_output r) [] @ ''\<newline>'' @
     ''   Duration: '' @ ok_duration r @ ''s\<newline>\<newline>'' @
     success_lines (index + 1) rs"

fun failure_lines :: "nat \<Rightarrow> failure_entry list \<Rightarrow> string" where
  "failure_lines index [] = []"
| "failure_lines index (e # es) =
     decimal (index + 1) @ ''. '' @ failed_input e @ ''\<newline>'' @
     ''   Error: '' @ failed_error e @ ''\<newline>'' @
     ''   Duration: '' @ failed_duration e @ ''s\<newline>\<newline>'' @
     failure_lines (index + 1) es"

definition generateSummary ::
  "env \<Rightarrow> event list \<Rightarrow> success_entry list \<Rightarrow> failure_entry list \<Rightarrow> batch_options \<Rightarrow> string" where
  "generateSummary env log rs es opts =
     (let totalFiles = length rs + length es;
          successRate = (if totalFiles > 0 then percentFixed env (length rs) totalFiles else ''0'');
          durations = map ok_duration rs @ map failed_duration es
      in
      ''BATCH PDF TO TEXT CONVERSION SUMMARY\<newline>'' @
      ''=====================================\<newline>\<newline>'' @
      ''Processing Date: '' @ localeDate env log @ ''\<newline>'' @
      ''Total Files: '' @ decimal totalFiles @ ''\<newline>'' @
      ''Successful: '' @ decimal (length rs) @ ''\<newline>'' @
      ''Failed: '' @ decimal (length es) @ ''\<newline>'' @
      ''Success Rate: '' @ successRate @ ''%\<newline>'' @
      ''Total Duration: '' @ totalFixed env durations @ '' seconds\<newline>'' @
      ''Average per file: '' @
         (if totalFiles > 0 then averageFixed env durations totalFiles else ''0'') @
         '' seconds\<newline>\<newline>'' @
      ''SETTINGS:\<newline>'' @
      ''---------\<newline>'' @
      ''Language: '' @ or_else (bp_language opts) ''ara'' @ ''\<newline>'' @
      ''Image Format: '' @ or_else (bp_imageFormat opts) ''png'' @ ''\<newline>'' @
      ''DPI: '' @ js_int (or_else_int (bp_density opts) 300) @ ''\<newline>'' @
      ''Keep Images: '' @ (if or_default (bp_keepImages opts) False then ''Yes'' else ''No'') @ ''\<newline>'' @
      ''Concurrent: '' @ js_int (or_else_int (bp_concurrent opts) 1) @ ''\<newline>\<newline>'' @
      (if length rs > 0 then
         ''SUCCESSFUL CONVERSIONS:\<newline>'' @ ''----------------------\<newline>'' @ success_lines 0 rs
       else []) @
      (if length es > 0 then
         ''FAILED CONVERSIONS:\<newline>'' @ ''------------------\<newline>'' @ failure_lines 0 es
       else []))"

definition pdf_of_entry :: "string \<Rightarrow> string \<Rightarrow> pdf_file" where
  "pdf_of_entry inputPath file =
     \<lparr> fullPath = path_join inputPath file, filename = file, pdf_basename = basename file ''.pdf'' \<rparr>"

text \<open>
  The list of documents: the \<open>.pdf\<close> entries of a directory, or the one file. The
  result is the exception thrown, or the list.
\<close>

definition resolve_pdfs :: "env \<Rightarrow> string \<Rightarrow> event list \<Rightarrow> (error + pdf_file list) \<times> event list" where
  "resolve_pdfs env inputPath log =
     (let log1 = log @ [StatSync inputPath] in
      (case statIsDirectory env log inputPath of
         Inl e \<Rightarrow> (Inl e, log1)
       | Inr True \<Rightarrow>
           (case readdirSync env log1 inputPath of
              Inl e \<Rightarrow> (Inl e, log1 @ [ReaddirSync inputPath])
            | Inr files \<Rightarrow>
                (Inr (map (pdf_of_entry inputPath)
                        (filter (\<lambda>file. toLowerCase (extname file) = ''.pdf'') files)),
                 log1 @ [ReaddirSync inputPath]))
       | Inr False \<Rightarrow>
           if toLowerCase (extname inputPath) = ''.pdf'' then
             (Inr [\<lparr> fullPath = inputPath, filename = basename inputPath [],
                     pdf_basename = basename inputPath ''.pdf'' \<rparr>], log1)
           else
             (Inl (Error ''Input must be a PDF file or directory containing PDF files''), log1)))"

text \<open>
  \<open>batchProcessPdfs\<close>. The value is \<open>None\<close> when the chunk loop does not end;
  otherwise it is the exception thrown or \<open>{ results, errors, summary }\<close>, with the
  events of the run.
\<close>

definition batchProcessPdfs ::
  "env \<Rightarrow> (event list \<Rightarrow> (pdf_file \<times> int) list \<Rightarrow> (pdf_file \<times> int) list) \<Rightarrow> string
     \<Rightarrow> batch_options \<Rightarrow> event list
     \<Rightarrow> ((error + success_entry list \<times> failure_entry list \<times> string) \<times> event list) option" where
  "batchProcessPdfs env sched inputPath opts log =
     (let outputFolder = or_default (bp_outputFolder opts) ''batch_ocr_results'';
          concurrent = or_default (bp_concurrent opts) 1;
          log1 = log @ [ExistsSync outputFolder];
          made = (if \<not> existsSync env log outputFolder
                  then (mkdirSync env log1 outputFolder, log1 @ [MkdirSync outputFolder])
                  else (None, log1))
      in
      (case fst made of
         Some e \<Rightarrow> Some (Inl e, snd made)
       | None \<Rightarrow>
           (case resolve_pdfs env inputPath (snd made) of
              (Inl e, log2) \<Rightarrow> Some (Inl e, log2)
            | (Inr pdfFiles, log2) \<Rightarrow>
                if length pdfFiles = 0 then
                  Some (Inl (Error ''No PDF files found in the specified location''), log2)
                else
                  (case process_chunks env sched opts pdfFiles concurrent 0
                          \<lparr> results = [], failures = [], trace = log2 \<rparr> of
                     None \<Rightarrow> None
                   | Some st \<Rightarrow>
                       (let summaryFile = path_join outputFolder ''batch_processing_summary.txt'';
                            summary = generateSummary env (trace st) (results st) (failures st) opts;
                            log3 = trace st @ [WriteFileSync summaryFile summary]
                        in
                        (case writeFileSync env (trace st) summaryFile summary of
                           Some e \<Rightarrow> Some (Inl e, log3)
                         | None \<Rightarrow>
                             Some (Inr (results st, failures st, summaryFile), log3)))))))"

section \<open>Reference functions of the statements\<close>

subsection \<open>The retention areas\<close>

text \<open>
  The four areas, the folder of each below the base directory, and the method of the
  cleaner that cleans it.
\<close>

datatype area = Uploads | Outputs | Temp | Logs

fun area_folder :: "area \<Rightarrow> string" where
  "area_folder Uploads = ''uploads''"
| "area_folder Outputs = ''output''"
| "area_folder Temp = ''temp''"
| "area_folder Logs = ''logs''"

fun cleanArea :: "area \<Rightarrow> file_cleaner \<Rightarrow> cworld \<Rightarrow> cleaned \<times> file_cleaner \<times> cworld" where
  "cleanArea Uploads = cleanUploads"
| "cleanArea Outputs = cleanOutputs"
| "cleanArea Temp = cleanTemp"
| "cleanArea Logs = cleanLogs"

definition area_path :: "file_cleaner \<Rightarrow> area \<Rightarrow> string" where
  "area_path c a = path_join (baseDir c) (area_folder a)"

text \<open>
  The retention rule in the words of the specification: the threshold of the temp area
  is counted in hours, the others in days, and only the logs area has a file-name
  pattern.
\<close>

fun threshold_ms :: "cleaner_options \<Rightarrow> area \<Rightarrow> int" where
  "threshold_ms opts Uploads = uploadsRetentionDays opts * 86400000"
| "threshold_ms opts Outputs = outputRetentionDays opts * 86400000"
| "threshold_ms opts Temp = tempRetentionHours opts * 3600000"
| "threshold_ms opts Logs = logsRetentionDays opts * 86400000"

fun area_pattern :: "area \<Rightarrow> (string \<Rightarrow> bool) option" where
  "area_pattern Logs = Some logPattern"
| "area_pattern a = None"

text \<open>
  An entry is due when it is not the placeholder, its \<open>stat\<close> succeeds, it matches the
  pattern if there is one, and its age is strictly above the threshold.
\<close>

definition due :: "int \<Rightarrow> int \<Rightarrow> (string \<Rightarrow> bool) option \<Rightarrow> string \<times> fsnode \<Rightarrow> bool" where
  "due clock maxAgeMs pat e \<longleftrightarrow>
     fst e \<noteq> ''.gitkeep'' \<and> snd e \<noteq> Unstat \<and>
     (case pat of None \<Rightarrow> True | Some test \<Rightarrow> test (fst e)) \<and>
     clock - mtime (snd e) > maxAgeMs"

definition entry_size :: "string \<times> fsnode \<Rightarrow> nat" where
  "entry_size e = (if isDirectory (snd e) then getDirectorySize (snd e) else stat_size (snd e))"

definition error_line :: "string \<times> fsnode \<Rightarrow> string" where
  "error_line e = fst e @ '': '' @ (case delete_error (snd e) of None \<Rightarrow> [] | Some msg \<Rightarrow> msg)"

text \<open>
  A due entry is counted when the run is a dry run or its deletion succeeds, removed
  when the run is not a dry run and its deletion succeeds, and refused when the run is
  not a dry run and its deletion fails.
\<close>

definition counted :: "bool \<Rightarrow> int \<Rightarrow> int \<Rightarrow> (string \<Rightarrow> bool) option \<Rightarrow> string \<times> fsnode \<Rightarrow> bool" where
  "counted dry clock maxAgeMs pat e \<longleftrightarrow>
     due clock maxAgeMs pat e \<and> (dry \<or> delete_error (snd e) = None)"

definition removed :: "bool \<Rightarrow> int \<Rightarrow> int \<Rightarrow> (string \<Rightarrow> bool) option \<Rightarrow> string \<times> fsnode \<Rightarrow> bool" where
  "removed dry clock maxAgeMs pat e \<longleftrightarrow>
     due clock maxAgeMs pat e \<and> \<not> dry \<and> delete_error (snd e) = None"

definition refused :: "bool \<Rightarrow> int \<Rightarrow> int \<Rightarrow> (string \<Rightarrow> bool) option \<Rightarrow> string \<times> fsnode \<Rightarrow> bool" where
  "refused dry clock maxAgeMs pat e \<longleftrightarrow>
     due clock maxAgeMs pat e \<and> \<not> dry \<and> delete_error (snd e) \<noteq> None"

text \<open>What one pass reports, records and leaves on disk, as functions of the directory.\<close>

definition dir_cleaned :: "bool \<Rightarrow> int \<Rightarrow> int \<Rightarrow> (string \<Rightarrow> bool) option \<Rightarrow> fsnode option \<Rightarrow> cleaned" where
  "dir_cleaned dry clock maxAgeMs pat node =
     (case node of
        Some (DirN m es d) \<Rightarrow>
          \<lparr> count = length (filter (counted dry clock maxAgeMs pat) es),
            size_freed = sum_list (map entry_size (filter (counted dry clock maxAgeMs pat) es)) \<rparr>
      | _ \<Rightarrow> \<lparr> count = 0, size_freed = 0 \<rparr>)"

definition dir_errors ::
  "bool \<Rightarrow> int \<Rightarrow> string \<Rightarrow> int \<Rightarrow> (string \<Rightarrow> bool) option \<Rightarrow> fsnode option \<Rightarrow> string list" where
  "dir_errors dry clock dirPath maxAgeMs pat node =
     (case node of
        Some (DirN m es d) \<Rightarrow> map error_line (filter (refused dry clock maxAgeMs pat) es)
      | Some (FileN m s d) \<Rightarrow> [dirPath @ '': '' @ enotdir dirPath]
      | Some (DirUnreadable m msg d) \<Rightarrow> [dirPath @ '': '' @ msg]
      | _ \<Rightarrow> [])"

definition dir_after :: "bool \<Rightarrow> int \<Rightarrow> int \<Rightarrow> (string \<Rightarrow> bool) option \<Rightarrow> fsnode option \<Rightarrow> fsnode option" where
  "dir_after dry clock maxAgeMs pat node =
     (case node of
        Some (DirN m es d) \<Rightarrow> Some (DirN m (filter (\<lambda>e. \<not> removed dry clock maxAgeMs pat e) es) d)
      | _ \<Rightarrow> node)"

definition area_cleaned :: "area \<Rightarrow> file_cleaner \<Rightarrow> cworld \<Rightarrow> cleaned" where
  "area_cleaned a c w =
     dir_cleaned (dryRun (options c)) (now w) (threshold_ms (options c) a) (area_pattern a)
       (fs w (area_path c a))"

definition area_errors :: "area \<Rightarrow> file_cleaner \<Rightarrow> cworld \<Rightarrow> string list" where
  "area_errors a c w =
     dir_errors (dryRun (options c)) (now w) (area_path c a) (threshold_ms (options c) a)
       (area_pattern a) (fs w (area_path c a))"

definition area_after :: "area \<Rightarrow> file_cleaner \<Rightarrow> cworld \<Rightarrow> fsnode option" where
  "area_after a c w =
     dir_after (dryRun (options c)) (now w) (threshold_ms (options c) a) (area_pattern a)
       (fs w (area_path c a))"

fun set_cleaned :: "area \<Rightarrow> nat \<Rightarrow> cleanup_stats \<Rightarrow> cleanup_stats" where
  "set_cleaned Uploads n s = s\<lparr>uploadsCleaned := n\<rparr>"
| "set_cleaned Outputs n s = s\<lparr>outputsCleaned := n\<rparr>"
| "set_cleaned Temp n s = s\<lparr>tempsCleaned := n\<rparr>"
| "set_cleaned Logs n s = s\<lparr>logsCleaned := n\<rparr>"

text \<open>The statistics of a cleaner that has not run, and a cleaner put back to them.\<close>

definition fresh_stats :: cleanup_stats where
  "fresh_stats =
     \<lparr> uploadsCleaned = 0, outputsCleaned = 0, tempsCleaned = 0, logsCleaned = 0,
       totalSizeFreed = 0, errors = [] \<rparr>"

definition with_fresh_stats :: "file_cleaner \<Rightarrow> file_cleaner" where
  "with_fresh_stats c = c\<lparr>stats := fresh_stats\<rparr>"

text \<open>
  A concrete installation: the base directory \<open>/app\<close>, whose uploads folder holds one
  entry last modified at time 0, looked at two days later.
\<close>

definition no_args :: cleaner_args where
  "no_args =
     \<lparr> arg_uploadsRetentionDays = None, arg_outputRetentionDays = None,
       arg_tempRetentionHours = None, arg_logsRetentionDays = None,
       arg_dryRun = None, arg_verbose = None, arg_baseDir = Some ''/app'' \<rparr>"

definition sample_world :: "fsnode \<Rightarrow> cworld" where
  "sample_world node =
     \<lparr> fs = (\<lambda>p. if p = ''/app/uploads'' then Some (DirN 0 [(''old.pdf'', node)] None) else None),
       now = 172800000 \<rparr>"

text \<open>
  A cleaner in dry-run mode on the sample directory, and the sample world with one
  upload of 10 bytes, last modified two days before the clock reading.
\<close>

definition dry_cleaner :: file_cleaner where
  "dry_cleaner = FileCleaner ''/srv'' (no_args\<lparr>arg_dryRun := Some True\<rparr>)"

definition old_upload :: cworld where
  "old_upload = sample_world (FileN 0 10 None)"

subsection \<open>The OCR pass\<close>

text \<open>
  The history at the moment page \<open>i\<close> (counted from 0) of \<open>files\<close> is recognised, when
  the loop was entered with history \<open>start\<close>; the outcome of that recognition; and the
  text the page contributes after its separator.
\<close>

definition page_log :: "event list \<Rightarrow> string \<Rightarrow> string list \<Rightarrow> nat \<Rightarrow> event list" where
  "page_log start imagesFolder files i =
     start @ map (\<lambda>file. Recognize (path_join imagesFolder file)) (take i files)"

definition page_outcome :: "env \<Rightarrow> event list \<Rightarrow> string \<Rightarrow> string list \<Rightarrow> nat \<Rightarrow> thrown + string" where
  "page_outcome env start imagesFolder files i =
     recognize env (page_log start imagesFolder files i) (path_join imagesFolder (files ! i))"

text \<open>
  A recognition is handled when it returns, or throws a value with a message: those are
  the failures the page handler turns into an error marker.
\<close>

fun handled :: "thrown + string \<Rightarrow> bool" where
  "handled (Inr text) = True"
| "handled (Inl (Thrown e)) = True"
| "handled (Inl ThrownNull) = False"
| "handled (Inl ThrownUndefined) = False"

definition page_body :: "env \<Rightarrow> event list \<Rightarrow> string \<Rightarrow> string list \<Rightarrow> nat \<Rightarrow> string" where
  "page_body env start imagesFolder files i =
     (case page_outcome env start imagesFolder files i of
        Inr text \<Rightarrow> trim text
      | Inl (Thrown e) \<Rightarrow> error_marker e
      | Inl ThrownNull \<Rightarrow> []
      | Inl ThrownUndefined \<Rightarrow> [])"

definition ocr_start :: "event list \<Rightarrow> string \<Rightarrow> string \<Rightarrow> event list" where
  "ocr_start log imagesFolder language =
     log @ [ExistsSync imagesFolder, ReaddirSync imagesFolder, CreateWorker language]"

definition ocr_outputFile :: "ocr_options \<Rightarrow> string" where
  "ocr_outputFile opts = or_default (oi_outputFile opts) ''ocr_results.txt''"

definition ocr_language :: "ocr_options \<Rightarrow> string" where
  "ocr_language opts = or_default (oi_language opts) ''ara''"

definition ocr_pagePrefix :: "ocr_options \<Rightarrow> string" where
  "ocr_pagePrefix opts = or_default (oi_pagePrefix opts) ''page_''"

definition ocr_pageSeparator :: "ocr_options \<Rightarrow> string" where
  "ocr_pageSeparator opts = or_default (oi_pageSeparator opts) default_pageSeparator"

definition ocr_text :: "env \<Rightarrow> event list \<Rightarrow> string \<Rightarrow> string \<Rightarrow> string list \<Rightarrow> string" where
  "ocr_text env start imagesFolder pageSeparator files =
     concat (map (\<lambda>i. page_separator pageSeparator (i + 1) @
                        page_body env start imagesFolder files i @ ''\<newline>'')
               [0..<length files])"

definition session_end :: "event list \<Rightarrow> string \<Rightarrow> string list \<Rightarrow> event list" where
  "session_end start imagesFolder files =
     start @ map (\<lambda>f. Recognize (path_join imagesFolder f)) files"

fun opens_session :: "event \<Rightarrow> bool" where
  "opens_session (CreateWorker l) = True"
| "opens_session e = False"

fun uses_session :: "event \<Rightarrow> bool" where
  "uses_session (Recognize p) = True"
| "uses_session e = False"

definition session_event :: "event \<Rightarrow> bool" where
  "session_event e \<longleftrightarrow> opens_session e \<or> uses_session e \<or> e = Terminate"

definition default_ocr_options :: ocr_options where
  "default_ocr_options =
     \<lparr> oi_outputFile = None, oi_language = None, oi_pagePrefix = None, oi_pageSeparator = None \<rparr>"

definition sample_env ::
  "(string \<Rightarrow> bool) \<Rightarrow> (string \<Rightarrow> string list) \<Rightarrow> string option list \<Rightarrow> (string \<Rightarrow> thrown + string) \<Rightarrow> env" where
  "sample_env present listing pages ocr =
     \<lparr> existsSync = (\<lambda>h p. present p),
       mkdirSync = (\<lambda>h p. None),
       statIsDirectory = (\<lambda>h p. Inr True),
       readdirSync = (\<lambda>h p. Inr (listing p)),
       renameSync = (\<lambda>h a b. None),
       writeFileSync = (\<lambda>h p t. None),
       rmSync = (\<lambda>h p. None),
       bulk = (\<lambda>h pdf folder fmt d q. Inr pages),
       createWorker = (\<lambda>h l. None),
       recognize = (\<lambda>h p. ocr p),
       terminate = (\<lambda>h. None),
       dateNow = (\<lambda>h. int (length h)),
       localeDate = (\<lambda>h. ''03/11/2026, 10:00:00''),
       secondsFixed = (\<lambda>ms. ''0.0''),
       percentFixed = (\<lambda>a b. if a = b then ''100.0'' else ''66.7''),
       totalFixed = (\<lambda>ds. ''0.0''),
       averageFixed = (\<lambda>ds n. ''0.0'') \<rparr>"



definition null_rejection :: env where
  "null_rejection =
     sample_env (\<lambda>p. True) (\<lambda>p. [''page_002.png'', ''page_001.png'']) []
       (\<lambda>p. if p = ''scans/page_001.png'' then Inl ThrownNull else Inr ''text'')"

definition session_acquired :: "env \<Rightarrow> string \<Rightarrow> ocr_options \<Rightarrow> event list \<Rightarrow> bool" where
  "session_acquired env imagesFolder opts log \<longleftrightarrow>
     existsSync env log imagesFolder \<and>
     (\<exists>names. readdirSync env (log @ [ExistsSync imagesFolder]) imagesFolder = Inr names \<and>
              image_files (ocr_pagePrefix opts) names \<noteq> []) \<and>
     createWorker env (log @ [ExistsSync imagesFolder, ReaddirSync imagesFolder])
       (ocr_language opts) = None"

subsection \<open>The conversion of one document\<close>

text \<open>The options \<open>convertPdfToText\<close> passes to the two steps.\<close>

definition images_args :: "text_options \<Rightarrow> images_options" where
  "images_args opts =
     \<lparr> ci_outputFolder = ct_tempImagesFolder opts,
       ci_imageFormat = Some (or_default (ct_imageFormat opts) ''png''),
       ci_density = Some (or_default (ct_density opts) 300),
       ci_quality = None \<rparr>"

definition ocr_args :: "string \<Rightarrow> text_options \<Rightarrow> ocr_options" where
  "ocr_args pdfPath opts =
     \<lparr> oi_outputFile =
         Some (or_else (ct_outputText opts)
                 (basename pdfPath (extname pdfPath) @ ''_ocr_results.txt'')),
       oi_language = Some (or_default (ct_language opts) ''ara''),
       oi_pagePrefix = None, oi_pageSeparator = None \<rparr>"

fun removes :: "event \<Rightarrow> bool" where
  "removes (RmSync p) = True"
| "removes e = False"

fun marks :: "event \<Rightarrow> bool" where
  "marks (Launched f) = True"
| "marks (Settled f) = True"
| "marks e = False"

definition plain :: "event list \<Rightarrow> bool" where
  "plain evs \<longleftrightarrow> (\<forall>e\<in>set evs. \<not> removes e \<and> \<not> marks e)"

definition default_text_options :: text_options where
  "default_text_options =
     \<lparr> ct_outputText = None, ct_tempImagesFolder = None, ct_keepImages = None,
       ct_imageFormat = None, ct_density = None, ct_language = None \<rparr>"

definition one_page :: env where
  "one_page =
     sample_env (\<lambda>p. True) (\<lambda>p. [''page_001.png'']) [Some ''doc_images/page.1.png'']
       (\<lambda>p. Inr ''text'')"

definition no_pages :: "string list \<Rightarrow> env" where
  "no_pages listing = sample_env (\<lambda>p. True) (\<lambda>p. listing) [] (\<lambda>p. Inr ''old text'')"

definition missing_pdf :: env where
  "missing_pdf = sample_env (\<lambda>p. False) (\<lambda>p. []) [] (\<lambda>p. Inr ''text'')"

subsection \<open>The batch run\<close>

text \<open>
  The consecutive chunks of size \<open>c\<close> of a list, in the words of the specification:
  the first \<open>c\<close> elements, then the chunks of the rest.
\<close>

function chunks_of :: "nat \<Rightarrow> 'a list \<Rightarrow> 'a list list" where
  "chunks_of c xs = (if c = 0 \<or> xs = [] then [] else take c xs # chunks_of c (drop c xs))"
  by pat_completeness auto

termination
  by (relation "measure (\<lambda>(c, xs). length xs)") auto

declare chunks_of.simps [simp del]

text \<open>
  Documents in flight along a list of events: a launch adds one, a settlement takes
  one away. \<open>within bound cur evs\<close> says that, starting with \<open>cur\<close> documents in
  flight, there are at most \<open>bound\<close> in flight before and after every event of
  \<open>evs\<close>; \<open>net evs\<close> is the change over the whole list.
\<close>

fun delta :: "event \<Rightarrow> int" where
  "delta (Launched f) = 1"
| "delta (Settled f) = - 1"
| "delta e = 0"

fun within :: "int \<Rightarrow> int \<Rightarrow> event list \<Rightarrow> bool" where
  "within bound cur [] \<longleftrightarrow> cur \<le> bound"
| "within bound cur (e # evs) \<longleftrightarrow> cur \<le> bound \<and> within bound (cur + delta e) evs"

definition net :: "event list \<Rightarrow> int" where
  "net evs = sum_list (map delta evs)"

definition quiet :: "event list \<Rightarrow> bool" where
  "quiet evs \<longleftrightarrow> (\<forall>e\<in>set evs. \<not> marks e)"

text \<open>What one document adds to the state of the batch.\<close>

definition entry_names :: "batch_state \<Rightarrow> string list" where
  "entry_names st = map ok_input (results st) @ map failed_input (failures st)"

definition reported_missing :: "pdf_file \<Rightarrow> failure_entry list \<Rightarrow> bool" where
  "reported_missing pdf es \<longleftrightarrow>
     (\<exists>d. \<lparr> failed_input = filename pdf,
            failed_error = ''PDF file not found: '' @ fullPath pdf,
            failed_duration = d \<rparr> \<in> set es)"

definition source_missing :: "env \<Rightarrow> pdf_file \<Rightarrow> bool" where
  "source_missing env pdf \<longleftrightarrow> (\<forall>h. \<not> existsSync env h (fullPath pdf))"

definition settling :: "event list \<Rightarrow> bool" where
  "settling evs \<longleftrightarrow> (\<forall>e\<in>set evs. delta e \<le> 0)"

text \<open>
  A completion order is a rearrangement of the launched jobs: every job settles, once.
\<close>

definition rearranges ::
  "(event list \<Rightarrow> (pdf_file \<times> int) list \<Rightarrow> (pdf_file \<times> int) list) \<Rightarrow> bool" where
  "rearranges sched \<longleftrightarrow> (\<forall>h jobs. mset (sched h jobs) = mset jobs)"

text \<open>
  The options the batch passes to the pipeline of a document. The outcome of a
  pipeline is recorded when it stands in the list it belongs to, under the file name of
  the document: a result file among the results, the message of an exception among the
  failures. A document is accounted for at the end of a run when its pipeline ran at
  some moment of the run, settled, and its outcome is recorded.
\<close>

definition pipeline_args :: "batch_options \<Rightarrow> pdf_file \<Rightarrow> text_options" where
  "pipeline_args opts pdf =
     \<lparr> ct_outputText =
         Some (path_join (or_default (bp_outputFolder opts) ''batch_ocr_results'')
                 (pdf_basename pdf @ ''_ocr.txt'')),
       ct_tempImagesFolder =
         Some (path_join (or_default (bp_outputFolder opts) ''batch_ocr_results'')
                 (pdf_basename pdf @ ''_temp_images'')),
       ct_keepImages = Some (or_default (bp_keepImages opts) False),
       ct_imageFormat = Some (or_default (bp_imageFormat opts) ''png''),
       ct_density = Some (or_default (bp_density opts) 300),
       ct_language = Some (or_default (bp_language opts) ''ara'') \<rparr>"

definition recorded ::
  "pdf_file \<Rightarrow> error + string \<Rightarrow> success_entry list \<Rightarrow> failure_entry list \<Rightarrow> bool" where
  "recorded pdf outcome rs es \<longleftrightarrow>
     (case outcome of
        Inr resultFile \<Rightarrow>
          (\<exists>d. \<lparr> ok_input = filename pdf, ok_output = resultFile, ok_duration = d \<rparr> \<in> set rs)
      | Inl e \<Rightarrow>
          (\<exists>d. \<lparr> failed_input = filename pdf, failed_error = message e,
                 failed_duration = d \<rparr> \<in> set es))"

definition accounted ::
  "env \<Rightarrow> batch_options \<Rightarrow> pdf_file \<Rightarrow> success_entry list \<Rightarrow> failure_entry list
     \<Rightarrow> event list \<Rightarrow> bool" where
  "accounted env opts pdf rs es evs \<longleftrightarrow>
     (\<exists>h outcome log1.
        convertPdfToText env (fullPath pdf) (pipeline_args opts pdf) h = (outcome, log1) \<and>
        prefix (log1 @ [Settled (filename pdf)]) evs \<and>
        recorded pdf outcome rs es)"

definition later_state :: "batch_state \<Rightarrow> batch_state \<Rightarrow> bool" where
  "later_state st st' \<longleftrightarrow>
     prefix (trace st) (trace st') \<and> set (results st) \<subseteq> set (results st') \<and>
     set (failures st) \<subseteq> set (failures st')"

definition three_pdfs :: env where
  "three_pdfs =
     sample_env (\<lambda>p. p \<noteq> ''in/b.pdf'')
       (\<lambda>p. if p = ''in'' then [''a.pdf'', ''b.pdf'', ''notes.txt'', ''c.PDF'']
            else [''page_001.png''])
       [Some ''page.1.png''] (\<lambda>p. Inr ''text'')"

definition null_page :: env where
  "null_page =
     sample_env (\<lambda>p. True)
       (\<lambda>p. if p = ''in'' then [''a.pdf'', ''b.pdf'', ''notes.txt'', ''c.PDF'']
            else [''page_001.png''])
       [Some ''page.1.png'']
       (\<lambda>p. if p = ''out/b_temp_images/page_001.png'' then Inl ThrownNull else Inr ''text'')"

definition batch_of_two :: batch_options where
  "batch_of_two =
     \<lparr> bp_outputFolder = Some ''out'', bp_keepImages = None, bp_imageFormat = None,
       bp_density = None, bp_language = None, bp_concurrent = Some 2 \<rparr>"

definition batch_start :: "env \<Rightarrow> string \<Rightarrow> event list \<Rightarrow> event list" where
  "batch_start env outputFolder log =
     (if existsSync env log outputFolder then log @ [ExistsSync outputFolder]
      else log @ [ExistsSync outputFolder, MkdirSync outputFolder])"

definition three_docs :: "pdf_file list" where
  "three_docs = map (pdf_of_entry ''in'') [''a.pdf'', ''b.pdf'', ''c.PDF'']"

section \<open>Properties of the retention cleaner\<close>

lemma clean_entry_cases:
  "clean_entry dry clk mx pat e st =
     (if due clk mx pat e then
        (if dry then st\<lparr>kept := kept st @ [e], acc := \<lparr>count = count (acc st) + 1, size_freed = size_freed (acc st) + entry_size e\<rparr>\<rparr>
         else case delete_error (snd e) of
                None \<Rightarrow> st\<lparr>acc := \<lparr>count = count (acc st) + 1, size_freed = size_freed (acc st) + entry_size e\<rparr>\<rparr>
              | Some msg \<Rightarrow> st\<lparr>kept := kept st @ [e], errs := errs st @ [error_line e]\<rparr>)
      else st\<lparr>kept := kept st @ [e]\<rparr>)"
  by (auto simp: clean_entry_def due_def entry_size_def error_line_def Let_def split: option.splits)

lemma clean_entries_eq:
  "clean_entries dry clk mx pat es st =
     \<lparr> acc = \<lparr> count = count (acc st) + length (filter (counted dry clk mx pat) es),
               size_freed = size_freed (acc st) + sum_list (map entry_size (filter (counted dry clk mx pat) es)) \<rparr>,
       kept = kept st @ filter (\<lambda>e. \<not> removed dry clk mx pat e) es,
       errs = errs st @ map error_line (filter (refused dry clk mx pat) es) \<rparr>"
  by (induction es arbitrary: st)
     (auto simp: clean_entry_cases counted_def removed_def refused_def split: option.splits)

lemma world_update_same: "fs w p = v \<Longrightarrow> w\<lparr>fs := (fs w)(p := v)\<rparr> = w"
  by (cases w) (auto simp: fun_upd_idem)

lemma cleanDirectory_eq:
  "cleanDirectory dirPath mx pat c w =
     (dir_cleaned (dryRun (options c)) (now w) mx pat (fs w dirPath),
      c\<lparr>stats := (stats c)\<lparr>errors := errors (stats c) @ dir_errors (dryRun (options c)) (now w) dirPath mx pat (fs w dirPath)\<rparr>\<rparr>,
      w\<lparr>fs := (fs w)(dirPath := dir_after (dryRun (options c)) (now w) mx pat (fs w dirPath))\<rparr>)"
  by (auto simp: cleanDirectory_def dir_cleaned_def dir_errors_def dir_after_def clean_entries_eq
        push_error_def Let_def world_update_same split: option.splits fsnode.splits)

lemma cleanArea_eq:
  "cleanArea a c w =
     (area_cleaned a c w,
      c\<lparr>stats := set_cleaned a (count (area_cleaned a c w))
                  ((stats c)\<lparr>errors := errors (stats c) @ area_errors a c w,
                             totalSizeFreed := totalSizeFreed (stats c) + size_freed (area_cleaned a c w)\<rparr>)\<rparr>,
      w\<lparr>fs := (fs w)(area_path c a := area_after a c w)\<rparr>)"
  by (cases a)
     (simp_all add: cleanUploads_def cleanOutputs_def cleanTemp_def cleanLogs_def cleanDirectory_eq
        area_cleaned_def area_errors_def area_after_def area_path_def logPattern_def Let_def
        mult.commute [of _ "86400000::int"] mult.commute [of _ "3600000::int"])

lemmas clean_methods_eq =
  cleanArea_eq [of Uploads, unfolded cleanArea.simps]
  cleanArea_eq [of Outputs, unfolded cleanArea.simps]
  cleanArea_eq [of Temp, unfolded cleanArea.simps]
  cleanArea_eq [of Logs, unfolded cleanArea.simps]

lemma runCleanup_eq:
  "runCleanup c w =
     (let (r1, c1, w1) = cleanArea Uploads c w;
          (r2, c2, w2) = cleanArea Outputs c1 w1;
          (r3, c3, w3) = cleanArea Temp c2 w2;
          (r4, c4, w4) = cleanArea Logs c3 w3
      in (stats c4, c4, w4))"
  by (simp add: runCleanup_def)

lemma cleanArea_frame:
  "cleanArea a c w = (r, c', w') \<Longrightarrow>
     options c' = options c \<and> baseDir c' = baseDir c \<and> now w' = now w"
  by (auto simp: cleanArea_eq)

lemma cleanArea_stats_indep:
  "cleanArea a (c\<lparr>stats := s\<rparr>) w =
     (case cleanArea a c w of (r, c', w') \<Rightarrow>
        (r,
         c'\<lparr>stats := set_cleaned a (count r)
                   (s\<lparr>errors := errors s @ area_errors a c w,
                      totalSizeFreed := totalSizeFreed s + size_freed r\<rparr>)\<rparr>,
         w'))"
  by (simp add: cleanArea_eq area_cleaned_def area_errors_def area_after_def area_path_def)

lemma area_stats_indep [simp]:
  "area_path (c\<lparr>stats := s\<rparr>) a = area_path c a"
  "area_cleaned a (c\<lparr>stats := s\<rparr>) w = area_cleaned a c w"
  "area_errors a (c\<lparr>stats := s\<rparr>) w = area_errors a c w"
  "area_after a (c\<lparr>stats := s\<rparr>) w = area_after a c w"
  by (simp_all add: area_path_def area_cleaned_def area_errors_def area_after_def)

lemma runCleanup_stats_indep:
  "runCleanup (c\<lparr>stats := s\<rparr>) w =
     (case runCleanup (c\<lparr>stats := fresh_stats\<rparr>) w of (s0, c0, w0) \<Rightarrow>
        (s0\<lparr>totalSizeFreed := totalSizeFreed s + totalSizeFreed s0, errors := errors s @ errors s0\<rparr>,
         c0\<lparr>stats := s0\<lparr>totalSizeFreed := totalSizeFreed s + totalSizeFreed s0, errors := errors s @ errors s0\<rparr>\<rparr>,
         w0))"
  by (simp add: runCleanup_def clean_methods_eq fresh_stats_def)

lemma stats_of_run: "runCleanup c w = (s, c', w') \<Longrightarrow> stats c' = s"
  by (auto simp: runCleanup_def split: prod.splits)

lemma with_fresh_stats_idem: "c\<lparr>stats := stats c\<rparr> = c"
  by simp

lemma sample_paths:
  "area_path (FileCleaner p no_args) Uploads = ''/app/uploads''"
  by (simp_all add: area_path_def FileCleaner_def no_args_def path_join_def)

lemma dir_after_dry: "dir_after True clk mx pat node = node"
  by (auto simp: dir_after_def removed_def split: option.splits fsnode.splits)

lemma cleanArea_dry:
  "dryRun (options c) \<Longrightarrow> snd (snd (cleanArea a c w)) = w"
  by (simp add: cleanArea_eq area_after_def dir_after_dry world_update_same)

lemma cleanArea_options:
  "options (fst (snd (cleanArea a c w))) = options c"
  by (simp add: cleanArea_eq)

lemma runCleanup_dry:
  assumes "dryRun (options c)"
  shows "snd (snd (runCleanup c w)) = w"
proof -
  obtain r1 c1 w1 where s1: "cleanArea Uploads c w = (r1, c1, w1)"
    by (cases "cleanArea Uploads c w") auto
  obtain r2 c2 w2 where s2: "cleanArea Outputs c1 w1 = (r2, c2, w2)"
    by (cases "cleanArea Outputs c1 w1") auto
  obtain r3 c3 w3 where s3: "cleanArea Temp c2 w2 = (r3, c3, w3)"
    by (cases "cleanArea Temp c2 w2") auto
  obtain r4 c4 w4 where s4: "cleanArea Logs c3 w3 = (r4, c4, w4)"
    by (cases "cleanArea Logs c3 w3") auto
  have o1: "dryRun (options c1)" using cleanArea_options [of Uploads c w] s1 assms by simp
  have o2: "dryRun (options c2)" using cleanArea_options [of Outputs c1 w1] s2 o1 by simp
  have o3: "dryRun (options c3)" using cleanArea_options [of Temp c2 w2] s3 o2 by simp
  have "w1 = w" using cleanArea_dry [OF assms, of Uploads w] s1 by simp
  moreover have "w2 = w1" using cleanArea_dry [OF o1, of Outputs w1] s2 by simp
  moreover have "w3 = w2" using cleanArea_dry [OF o2, of Temp w2] s3 by simp
  moreover have "w4 = w3" using cleanArea_dry [OF o3, of Logs w3] s4 by simp
  moreover have "runCleanup c w = (stats c4, c4, w4)"
    using s1 s2 s3 s4 by (simp add: runCleanup_eq)
  ultimately show ?thesis by simp
qed

lemma counted_no_failures:
  "delete_error (snd e) = None \<Longrightarrow> counted dry clk mx pat e = due clk mx pat e"
  by (simp add: counted_def)

lemma dir_cleaned_no_failures:
  assumes "\<forall>e\<in>set es. delete_error (snd e) = None"
  shows "dir_cleaned dry clk mx pat (Some (DirN m es d)) = dir_cleaned dry' clk mx pat (Some (DirN m es d))"
proof -
  have "filter (counted dry clk mx pat) es = filter (counted dry' clk mx pat) es"
    using assms by (intro filter_cong) (auto simp: counted_no_failures)
  then show ?thesis by (simp add: dir_cleaned_def)
qed

lemma threshold_ms_dryRun [simp]:
  "threshold_ms (opts\<lparr>dryRun := b\<rparr>) a = threshold_ms opts a"
  by (cases a) simp_all

lemma set_cleaned_other [simp]:
  "errors (set_cleaned a n s) = errors s"
  "totalSizeFreed (set_cleaned a n s) = totalSizeFreed s"
  by (cases a; simp)+

text \<open>
  Claim C5, as amended. For every entry of the base directory of a retention area:
  the pass counts the entry exactly when the entry is due (it is not the placeholder
  \<open>.gitkeep\<close>, its \<open>stat\<close> succeeds, it matches the \<open>.log\<close> suffix pattern in the
  logs area, which is the only area with a pattern, and its age is strictly above the
  threshold, taken in hours for the temp area and in days for the uploads, outputs and
  logs areas) and, unless the run is a dry run, its deletion succeeds; the entry is
  gone afterwards exactly when it is due, the run is not a dry run and its deletion
  succeeds; a due entry whose deletion fails stays on disk, is not counted, and adds
  \<open>name: message\<close> to the error list.
\<close>

theorem cleanArea_counts_and_deletes:
  assumes "fs w (area_path c a) = Some (DirN m es d)"
  shows "case cleanArea a c w of (r, c', w') \<Rightarrow>
     count r = length (filter (counted (dryRun (options c)) (now w) (threshold_ms (options c) a) (area_pattern a)) es) \<and>
     fs w' (area_path c a) =
       Some (DirN m (filter (\<lambda>e. \<not> removed (dryRun (options c)) (now w) (threshold_ms (options c) a) (area_pattern a) e) es) d) \<and>
     errors (stats c') = errors (stats c) @
       map error_line (filter (refused (dryRun (options c)) (now w) (threshold_ms (options c) a) (area_pattern a)) es)"
  using assms
  by (simp add: cleanArea_eq area_cleaned_def area_errors_def area_after_def dir_cleaned_def
        dir_errors_def dir_after_def)

theorem cleanArea_counts_and_deletes_witness:
  "fs (sample_world (FileN 0 10 None)) (area_path (FileCleaner ''/srv'' no_args) Uploads) =
     Some (DirN 0 [(''old.pdf'', FileN 0 10 None)] None) \<and>
   count (fst (cleanArea Uploads (FileCleaner ''/srv'' no_args) (sample_world (FileN 0 10 None)))) = 1 \<and>
   fs (snd (snd (cleanArea Uploads (FileCleaner ''/srv'' no_args) (sample_world (FileN 0 10 None)))))
      ''/app/uploads'' = Some (DirN 0 [] None)"
proof -
  let ?c = "FileCleaner ''/srv'' no_args" and ?w = "sample_world (FileN 0 10 None)"
  have dir: "fs ?w (area_path ?c Uploads) = Some (DirN 0 [(''old.pdf'', FileN 0 10 None)] None)"
    by (simp add: sample_paths sample_world_def)
  have opts: "dryRun (options ?c) = False" "threshold_ms (options ?c) Uploads = 86400000"
    by (simp_all add: FileCleaner_def no_args_def or_default_def)
  have is_due: "due (now ?w) 86400000 None (''old.pdf'', FileN 0 10 None)"
    by (simp add: due_def sample_world_def)
  show ?thesis
    using cleanArea_counts_and_deletes [OF dir] dir opts is_due
    by (simp add: counted_def removed_def sample_paths split: prod.splits)
qed

text \<open>
  Claim C5 as stated fails: an upload that is not the placeholder, in an area without
  pattern, two days old under a threshold of one day, in a run that is not a dry run,
  is neither counted nor deleted when \<open>unlink\<close> fails on it.
\<close>

theorem failed_delete_counterexample:
  "fst (''old.pdf'', FileN 0 10 (Some ''EACCES: permission denied'')) \<noteq> ''.gitkeep'' \<and>
   area_pattern Uploads = None \<and>
   now (sample_world (FileN 0 10 (Some ''EACCES: permission denied''))) - 0 >
     threshold_ms (options (FileCleaner ''/srv'' no_args)) Uploads \<and>
   \<not> dryRun (options (FileCleaner ''/srv'' no_args)) \<and>
   count (fst (cleanArea Uploads (FileCleaner ''/srv'' no_args)
                 (sample_world (FileN 0 10 (Some ''EACCES: permission denied''))))) = 0 \<and>
   fs (snd (snd (cleanArea Uploads (FileCleaner ''/srv'' no_args)
                 (sample_world (FileN 0 10 (Some ''EACCES: permission denied''))))))
      ''/app/uploads'' =
     Some (DirN 0 [(''old.pdf'', FileN 0 10 (Some ''EACCES: permission denied''))] None)"
  by code_simp

text \<open>
  What holds of a dry run. It deletes nothing: the file system after \<open>runCleanup\<close> is
  the file system before it. The traversal, the age checks and the size accounting are
  those of a real run: the count and size a dry pass reports for a directory are those
  of the real pass when no deletion fails.
\<close>

lemma dry_run_deletes_nothing:
  "(dryRun (options c) \<longrightarrow> snd (snd (runCleanup c w)) = w) \<and>
   (fs w (area_path c ar) = Some (DirN m es d) \<and> (\<forall>e\<in>set es. delete_error (snd e) = None) \<longrightarrow>
      fst (cleanArea ar (c\<lparr>options := (options c)\<lparr>dryRun := True\<rparr>\<rparr>) w) =
      fst (cleanArea ar (c\<lparr>options := (options c)\<lparr>dryRun := False\<rparr>\<rparr>) w))"
proof (intro conjI impI)
  assume "dryRun (options c)"
  then show "snd (snd (runCleanup c w)) = w" by (rule runCleanup_dry)
next
  assume h: "fs w (area_path c ar) = Some (DirN m es d) \<and> (\<forall>e\<in>set es. delete_error (snd e) = None)"
  then show "fst (cleanArea ar (c\<lparr>options := (options c)\<lparr>dryRun := True\<rparr>\<rparr>) w) =
      fst (cleanArea ar (c\<lparr>options := (options c)\<lparr>dryRun := False\<rparr>\<rparr>) w)"
    using dir_cleaned_no_failures [of es True _ _ _ m d False]
    by (simp add: cleanArea_eq area_cleaned_def area_path_def)
qed

text \<open>
  Claim C6 fails on the code. One cleaner object in dry-run mode is run twice in a row,
  over the same files and at the same clock reading; the uploads folder holds one file
  of 10 bytes that is older than the retention period. Both runs leave the file system
  as it is and both count one upload, but the first run reports 10 bytes freed and the
  second 20: every pass adds its size to \<open>totalSizeFreed\<close> of the statistics of the
  object, which only the constructor sets to zero, while the per-area counts next to it
  are assigned anew by every run.
\<close>

theorem second_dry_run_differs:
  "dryRun (options dry_cleaner) \<and>
   fst (runCleanup dry_cleaner old_upload) =
     \<lparr> uploadsCleaned = 1, outputsCleaned = 0, tempsCleaned = 0, logsCleaned = 0,
       totalSizeFreed = 10, errors = [] \<rparr> \<and>
   snd (snd (runCleanup dry_cleaner old_upload)) = old_upload \<and>
   fst (runCleanup (fst (snd (runCleanup dry_cleaner old_upload)))
          (snd (snd (runCleanup dry_cleaner old_upload)))) =
     \<lparr> uploadsCleaned = 1, outputsCleaned = 0, tempsCleaned = 0, logsCleaned = 0,
       totalSizeFreed = 20, errors = [] \<rparr> \<and>
   snd (snd (runCleanup (fst (snd (runCleanup dry_cleaner old_upload)))
          (snd (snd (runCleanup dry_cleaner old_upload))))) = old_upload"
proof -
  have first: "fst (runCleanup dry_cleaner old_upload) =
     \<lparr> uploadsCleaned = 1, outputsCleaned = 0, tempsCleaned = 0, logsCleaned = 0,
       totalSizeFreed = 10, errors = [] \<rparr>"
    by code_simp
  have second: "fst (runCleanup (fst (snd (runCleanup dry_cleaner old_upload)))
          (snd (snd (runCleanup dry_cleaner old_upload)))) =
     \<lparr> uploadsCleaned = 1, outputsCleaned = 0, tempsCleaned = 0, logsCleaned = 0,
       totalSizeFreed = 20, errors = [] \<rparr>"
    by code_simp
  have dry: "dryRun (options dry_cleaner)"
    by (simp add: dry_cleaner_def FileCleaner_def no_args_def or_default_def)
  have kept: "snd (snd (runCleanup dry_cleaner old_upload)) = old_upload"
    using dry by (rule runCleanup_dry)
  have dry2: "dryRun (options (fst (snd (runCleanup dry_cleaner old_upload))))"
    by code_simp
  have kept2: "snd (snd (runCleanup (fst (snd (runCleanup dry_cleaner old_upload)))
          (snd (snd (runCleanup dry_cleaner old_upload))))) = old_upload"
    using runCleanup_dry [OF dry2, of "snd (snd (runCleanup dry_cleaner old_upload))"] kept
    by simp
  show ?thesis
    using dry first kept second kept2 by simp
qed

text \<open>
  Claim C10. A new cleaner starts from zero statistics. A run of any cleaner returns
  its own statistics object, in which \<open>totalSizeFreed\<close> is the value before the run
  plus what this run frees, \<open>errors\<close> is the list before the run followed by the
  errors of this run, and the four per-area counts are those of this run alone,
  whatever they were before. Hence the next run on the same object, on any world,
  returns the bytes of both runs, which differs from the bytes of that run alone
  whenever the first run freed anything.
\<close>

theorem stats_accumulate_across_runs:
  "stats (FileCleaner p a) = fresh_stats \<and>
   (case runCleanup c w of (s, c', w') \<Rightarrow>
      case runCleanup (with_fresh_stats c) w of (s0, c0, w0) \<Rightarrow>
        stats c' = s \<and> w' = w0 \<and>
        totalSizeFreed s = totalSizeFreed (stats c) + totalSizeFreed s0 \<and>
        errors s = errors (stats c) @ errors s0 \<and>
        uploadsCleaned s = uploadsCleaned s0 \<and> outputsCleaned s = outputsCleaned s0 \<and>
        tempsCleaned s = tempsCleaned s0 \<and> logsCleaned s = logsCleaned s0 \<and>
        (\<forall>w2. totalSizeFreed (fst (runCleanup c' w2)) =
               totalSizeFreed s + totalSizeFreed (fst (runCleanup (with_fresh_stats c') w2))) \<and>
        (0 < totalSizeFreed s \<longrightarrow>
           (\<forall>w2. totalSizeFreed (fst (runCleanup c' w2)) \<noteq>
                  totalSizeFreed (fst (runCleanup (with_fresh_stats c') w2)))))"
proof -
  have ctor: "stats (FileCleaner p a) = fresh_stats"
    by (simp add: FileCleaner_def fresh_stats_def)
  have step: "runCleanup d v =
      (case runCleanup (with_fresh_stats d) v of (s0, c0, w0) \<Rightarrow>
        (s0\<lparr>totalSizeFreed := totalSizeFreed (stats d) + totalSizeFreed s0,
            errors := errors (stats d) @ errors s0\<rparr>,
         c0\<lparr>stats := s0\<lparr>totalSizeFreed := totalSizeFreed (stats d) + totalSizeFreed s0,
                         errors := errors (stats d) @ errors s0\<rparr>\<rparr>,
         w0))" for d v
    using runCleanup_stats_indep [where c=d and s="stats d" and w=v] by (simp add: with_fresh_stats_def)
  obtain s c' w' where run: "runCleanup c w = (s, c', w')"
    by (cases "runCleanup c w") auto
  obtain s0 c0 w0 where run0: "runCleanup (with_fresh_stats c) w = (s0, c0, w0)"
    by (cases "runCleanup (with_fresh_stats c) w") auto
  have st: "stats c' = s"
    using run by (rule stats_of_run)
  have eqs: "s = s0\<lparr>totalSizeFreed := totalSizeFreed (stats c) + totalSizeFreed s0,
                    errors := errors (stats c) @ errors s0\<rparr>" "w' = w0"
    using step [of c w] run run0 by simp_all
  have next_run: "totalSizeFreed (fst (runCleanup c' w2)) =
      totalSizeFreed s + totalSizeFreed (fst (runCleanup (with_fresh_stats c') w2))" for w2
    using step [of c' w2] st by (simp split: prod.splits)
  show ?thesis
    using ctor run run0 st eqs next_run by simp
qed

theorem stats_accumulate_across_runs_witness:
  "stats (FileCleaner ''/srv'' (no_args\<lparr>arg_dryRun := Some True\<rparr>)) = fresh_stats \<and>
   totalSizeFreed (fst (runCleanup (FileCleaner ''/srv'' (no_args\<lparr>arg_dryRun := Some True\<rparr>))
      (sample_world (FileN 0 10 None)))) = 10 \<and>
   totalSizeFreed (fst (runCleanup
      (with_fresh_stats (fst (snd (runCleanup (FileCleaner ''/srv'' (no_args\<lparr>arg_dryRun := Some True\<rparr>))
                   (sample_world (FileN 0 10 None))))))
      (sample_world (FileN 0 10 None)))) = 10 \<and>
   totalSizeFreed (fst (runCleanup
      (fst (snd (runCleanup (FileCleaner ''/srv'' (no_args\<lparr>arg_dryRun := Some True\<rparr>))
                   (sample_world (FileN 0 10 None)))))
      (sample_world (FileN 0 10 None)))) = 20"
proof -
  let ?c = "FileCleaner ''/srv'' (no_args\<lparr>arg_dryRun := Some True\<rparr>)"
  let ?w = "sample_world (FileN 0 10 None)"
  have first: "totalSizeFreed (fst (runCleanup ?c ?w)) = 10"
    by code_simp
  have alone: "totalSizeFreed (fst (runCleanup (with_fresh_stats (fst (snd (runCleanup ?c ?w)))) ?w)) = 10"
    by code_simp
  obtain s c' w' where run: "runCleanup ?c ?w = (s, c', w')"
    by (cases "runCleanup ?c ?w") auto
  show ?thesis
    using stats_accumulate_across_runs [of "''/srv''" "no_args\<lparr>arg_dryRun := Some True\<rparr>" ?c ?w]
      first alone run
    by (auto split: prod.splits)
qed

section \<open>Properties of ocrImages\<close>

lemma upt_shift: "[0..<Suc m] = 0 # map Suc [0..<m]"
  by (simp add: upt_conv_Cons map_Suc_upt del: upt_Suc)

lemma page_outcome_Cons:
  "page_outcome env log folder (f # files) 0 = recognize env log (path_join folder f)"
  "page_outcome env log folder (f # files) (Suc i) =
     page_outcome env (log @ [Recognize (path_join folder f)]) folder files i"
  by (simp_all add: page_outcome_def page_log_def)

lemma page_body_Cons:
  "page_body env log folder (f # files) (Suc i) =
     page_body env (log @ [Recognize (path_join folder f)]) folder files i"
  by (simp add: page_body_def page_outcome_Cons)

lemma ocr_page_handled:
  assumes "handled (recognize env log (path_join folder f))"
  shows "ocr_page env folder sep f n allText log =
     (Inr (allText @ page_separator sep n @ page_body env log folder (f # files) 0 @ ''\<newline>''),
      log @ [Recognize (path_join folder f)])"
  using assms
  by (cases "recognize env log (path_join folder f)" rule: handled.cases)
     (simp_all add: ocr_page_def Let_def page_body_def page_outcome_Cons)

lemma ocr_page_unhandled:
  assumes "\<not> handled (recognize env log (path_join folder f))"
  shows "\<exists>e. ocr_page env folder sep f n allText log =
           (Inl e, log @ [Recognize (path_join folder f)])"
  using assms
  by (cases "recognize env log (path_join folder f)" rule: handled.cases)
     (simp_all add: ocr_page_def Let_def)

lemma ocr_pages_handled:
  assumes "\<forall>i<length files. handled (page_outcome env log folder files i)"
  shows "ocr_pages env folder sep files n allText log =
     (Inr (allText @
           concat (map (\<lambda>i. page_separator sep (n + i) @ page_body env log folder files i @ ''\<newline>'')
                     [0..<length files])),
      log @ map (\<lambda>file. Recognize (path_join folder file)) files)"
  using assms
proof (induction files arbitrary: n allText log)
  case Nil
  then show ?case by simp
next
  case (Cons f files)
  have first: "handled (recognize env log (path_join folder f))"
    using Cons.prems [rule_format, of 0] by (simp add: page_outcome_Cons)
  have rest: "\<forall>i<length files.
                handled (page_outcome env (log @ [Recognize (path_join folder f)]) folder files i)"
    using Cons.prems by (auto simp: page_outcome_Cons [symmetric])
  show ?case
    unfolding length_Cons upt_shift
    by (simp add: ocr_page_handled [OF first, of sep n allText files] Cons.IH [OF rest]
          page_body_Cons comp_def del: upt_Suc)
qed

lemma ocr_pages_unhandled:
  assumes "\<not> (\<forall>i<length files. handled (page_outcome env log folder files i))"
  shows "\<exists>e k. ocr_pages env folder sep files n allText log =
           (Inl e, log @ map (\<lambda>file. Recognize (path_join folder file)) (take k files))"
  using assms
proof (induction files arbitrary: n allText log)
  case Nil
  then show ?case by simp
next
  case (Cons f files)
  show ?case
  proof (cases "handled (recognize env log (path_join folder f))")
    case False
    then obtain e where "ocr_page env folder sep f n allText log =
                           (Inl e, log @ [Recognize (path_join folder f)])"
      using ocr_page_unhandled by blast
    then show ?thesis
      by (intro exI [of _ e] exI [of _ 1]) simp
  next
    case True
    let ?log1 = "log @ [Recognize (path_join folder f)]"
    have "\<not> (\<forall>i<length files. handled (page_outcome env ?log1 folder files i))"
    proof
      assume all: "\<forall>i<length files. handled (page_outcome env ?log1 folder files i)"
      have "handled (page_outcome env log folder (f # files) i)" if "i < length (f # files)" for i
        using that True all by (cases i) (simp_all add: page_outcome_Cons)
      then show False using Cons.prems by blast
    qed
    then obtain e k where
      "ocr_pages env folder sep files (n + 1)
         (allText @ page_separator sep n @ page_body env log folder (f # files) 0 @ ''\<newline>'') ?log1 =
           (Inl e, ?log1 @ map (\<lambda>file. Recognize (path_join folder file)) (take k files))"
      using Cons.IH by blast
    then show ?thesis
      by (intro exI [of _ e] exI [of _ "Suc k"])
         (simp add: ocr_page_handled [OF True, of sep n allText files])
  qed
qed

lemma ocr_pages_logD:
  "ocr_pages env folder sep files n allText (log @ pre) = (r, l') \<Longrightarrow>
     \<exists>k. l' = log @ pre @ map (\<lambda>file. Recognize (path_join folder file)) (take k files)"
proof (cases "\<forall>i<length files. handled (page_outcome env (log @ pre) folder files i)")
  case True
  assume "ocr_pages env folder sep files n allText (log @ pre) = (r, l')"
  then show ?thesis
    using ocr_pages_handled [OF True, of sep n allText]
    by (intro exI [of _ "length files"]) simp
next
  case False
  assume "ocr_pages env folder sep files n allText (log @ pre) = (r, l')"
  then show ?thesis
    using ocr_pages_unhandled [OF False, of sep n allText] by auto
qed

lemma ocr_pages_eq:
  assumes "\<forall>i<length files. handled (page_outcome env start folder files i)"
  shows "ocr_pages env folder sep files 1 [] start =
     (Inr (ocr_text env start folder sep files), session_end start folder files)"
  using ocr_pages_handled [OF assms, of sep 1 "[]"]
  by (simp add: ocr_text_def session_end_def)

lemma ocrImages_acquired:
  assumes "existsSync env log folder"
    and "readdirSync env (log @ [ExistsSync folder]) folder = Inr names"
    and "image_files (ocr_pagePrefix opts) names = files" and "files \<noteq> []"
    and "createWorker env (log @ [ExistsSync folder, ReaddirSync folder]) (ocr_language opts) = None"
    and "\<forall>i<length files.
           handled (page_outcome env (ocr_start log folder (ocr_language opts)) folder files i)"
  shows "ocrImages env folder opts log =
     (let start = ocr_start log folder (ocr_language opts);
          text = ocr_text env start folder (ocr_pageSeparator opts) files;
          log4 = session_end start folder files
      in (case terminate env log4 of
            Some t \<Rightarrow> (Inl (rethrown t), log4 @ [Terminate])
          | None \<Rightarrow>
              (case writeFileSync env (log4 @ [Terminate]) (ocr_outputFile opts) text of
                 Some e \<Rightarrow> (Inl e, log4 @ [Terminate, WriteFileSync (ocr_outputFile opts) text])
               | None \<Rightarrow> (Inr (ocr_outputFile opts),
                           log4 @ [Terminate, WriteFileSync (ocr_outputFile opts) text]))))"
proof -
  have pages: "ocr_pages env folder (ocr_pageSeparator opts) files (Suc 0) []
                 (log @ [ExistsSync folder, ReaddirSync folder, CreateWorker (ocr_language opts)]) =
               (Inr (ocr_text env (ocr_start log folder (ocr_language opts)) folder
                       (ocr_pageSeparator opts) files),
                session_end (ocr_start log folder (ocr_language opts)) folder files)"
    using ocr_pages_eq [OF assms(6), of "ocr_pageSeparator opts"] by (simp add: ocr_start_def)
  show ?thesis
    using assms(1-5) pages
    by (simp add: ocrImages_def Let_def ocr_start_def ocr_outputFile_def
          ocr_language_def ocr_pagePrefix_def ocr_pageSeparator_def split: option.splits)
qed

lemma ocrImages_unhandled:
  assumes "existsSync env log folder"
    and "readdirSync env (log @ [ExistsSync folder]) folder = Inr names"
    and "image_files (ocr_pagePrefix opts) names = files" and "files \<noteq> []"
    and "createWorker env (log @ [ExistsSync folder, ReaddirSync folder]) (ocr_language opts) = None"
    and "\<not> (\<forall>i<length files.
             handled (page_outcome env (ocr_start log folder (ocr_language opts)) folder files i))"
  shows "\<exists>e k. ocrImages env folder opts log =
           (Inl e, ocr_start log folder (ocr_language opts) @
                   map (\<lambda>file. Recognize (path_join folder file)) (take k files))"
proof -
  obtain e k where "ocr_pages env folder (ocr_pageSeparator opts) files (Suc 0) []
                 (log @ [ExistsSync folder, ReaddirSync folder, CreateWorker (ocr_language opts)]) =
           (Inl e, ocr_start log folder (ocr_language opts) @
                   map (\<lambda>file. Recognize (path_join folder file)) (take k files))"
    using ocr_pages_unhandled [OF assms(6), of "ocr_pageSeparator opts" "Suc 0" "[]"]
    by (auto simp: ocr_start_def)
  then show ?thesis
    using assms(1-5)
    by (intro exI [of _ e] exI [of _ k])
       (simp add: ocrImages_def Let_def ocr_start_def ocr_language_def ocr_pagePrefix_def
          ocr_pageSeparator_def)
qed

lemma ocrImages_not_acquired:
  assumes "\<not> (existsSync env log folder \<and>
             (\<exists>names. readdirSync env (log @ [ExistsSync folder]) folder = Inr names \<and>
                      image_files (ocr_pagePrefix opts) names \<noteq> []) \<and>
             createWorker env (log @ [ExistsSync folder, ReaddirSync folder]) (ocr_language opts) = None)"
  shows "\<exists>e evs. ocrImages env folder opts log = (Inl e, log @ evs) \<and>
           evs \<in> {[ExistsSync folder], [ExistsSync folder, ReaddirSync folder],
                  [ExistsSync folder, ReaddirSync folder, CreateWorker (ocr_language opts)]}"
  using assms
  by (auto simp: ocrImages_def Let_def ocr_language_def ocr_pagePrefix_def
        split: option.splits sum.splits)







lemma filter_opens_recognize:
  "filter opens_session (map (\<lambda>f. Recognize (g f)) files) = []"
  by (induction files) simp_all

lemma no_terminate_recognize:
  "Terminate \<notin> set (map (\<lambda>f. Recognize (g f)) files)"
  by (induction files) simp_all

text \<open>
  When \<open>ocrImages\<close> has acquired a worker (the folder exists, the file set is not
  empty and \<open>createWorker\<close> returns), it calls \<open>terminate\<close> exactly when every
  recognition returns or throws a value with a message. Otherwise the page handler
  throws at the first page whose recognition throws \<open>null\<close> or \<open>undefined\<close>, and
  \<open>ocrImages\<close> throws after that page's \<open>recognize\<close> call without a call of
  \<open>terminate\<close>.
\<close>

lemma session_released_iff_handled:
  assumes "existsSync env log folder"
    and "readdirSync env (log @ [ExistsSync folder]) folder = Inr names"
    and "image_files (ocr_pagePrefix opts) names = files" and "files \<noteq> []"
    and "createWorker env (log @ [ExistsSync folder, ReaddirSync folder]) (ocr_language opts) = None"
  shows "\<exists>evs. snd (ocrImages env folder opts log) =
                 ocr_start log folder (ocr_language opts) @ evs \<and>
           (Terminate \<in> set evs \<longleftrightarrow>
              (\<forall>i<length files.
                 handled (page_outcome env (ocr_start log folder (ocr_language opts)) folder files i)))"
proof (cases "\<forall>i<length files.
                 handled (page_outcome env (ocr_start log folder (ocr_language opts)) folder files i)")
  case True
  show ?thesis
    using ocrImages_acquired [OF assms True] True
    by (auto simp: Let_def session_end_def split: option.splits)
next
  case False
  then obtain e k where "ocrImages env folder opts log =
           (Inl e, ocr_start log folder (ocr_language opts) @
                   map (\<lambda>file. Recognize (path_join folder file)) (take k files))"
    using ocrImages_unhandled [OF assms] by blast
  then show ?thesis
    using False no_terminate_recognize [of "path_join folder" "take k files"]
    by (intro exI [of _ "map (\<lambda>file. Recognize (path_join folder file)) (take k files)"]) simp
qed

text \<open>
  Claim C8 fails on the code. The folder holds two page images and the recognition of
  the first one is rejected with \<open>null\<close>: \<open>ocrImages\<close> has created its worker, the
  page handler throws when it reads the message of \<open>null\<close>, and \<open>ocrImages\<close>
  throws that \<open>TypeError\<close> without calling \<open>terminate\<close> and without recognising
  the second page.
\<close>

theorem ocrImages_leaks_session:
  "recognize null_rejection [ExistsSync ''scans'', ReaddirSync ''scans'', CreateWorker ''ara'']
     ''scans/page_001.png'' = Inl ThrownNull \<and>
   ocrImages null_rejection ''scans'' default_ocr_options [] =
     (Inl (Error ''Cannot read properties of null (reading 'message')''),
      [ExistsSync ''scans'', ReaddirSync ''scans'', CreateWorker ''ara'',
       Recognize ''scans/page_001.png'']) \<and>
   length (filter opens_session (snd (ocrImages null_rejection ''scans'' default_ocr_options []))) = 1 \<and>
   Terminate \<notin> set (snd (ocrImages null_rejection ''scans'' default_ocr_options []))"
  by code_simp

section \<open>Properties of convertPdfToText\<close>

lemma plain_simps [simp]:
  "plain []"
  "plain (e # evs) \<longleftrightarrow> \<not> removes e \<and> \<not> marks e \<and> plain evs"
  "plain (xs @ ys) \<longleftrightarrow> plain xs \<and> plain ys"
  by (auto simp: plain_def)

lemma save_page_log:
  "\<exists>evs. snd (snd (save_page env folder fmt r n saved log)) = log @ evs \<and> plain evs"
  by (auto simp: save_page_def Let_def split: option.splits)

lemma save_pages_log:
  "\<exists>evs. snd (save_pages env folder fmt rs n saved log) = log @ evs \<and> plain evs"
proof (induction rs arbitrary: n saved log)
  case Nil
  then show ?case by simp
next
  case (Cons r rs)
  obtain err saved1 log1 where step: "save_page env folder fmt r n saved log = (err, saved1, log1)"
    by (cases "save_page env folder fmt r n saved log") auto
  obtain evs1 where e1: "log1 = log @ evs1" "plain evs1"
    using save_page_log [of env folder fmt r n saved log] step by auto
  show ?case
  proof (cases err)
    case None
    obtain evs2 where "snd (save_pages env folder fmt rs (n + 1) saved1 log1) = log1 @ evs2" "plain evs2"
      using Cons.IH by blast
    then show ?thesis
      using step None e1 by (intro exI [of _ "evs1 @ evs2"]) simp
  next
    case (Some e)
    then show ?thesis
      using step e1 by (intro exI [of _ evs1]) simp
  qed
qed

lemma save_pages_logD:
  "save_pages env folder fmt rs n saved (log @ pre) = (r, l') \<Longrightarrow>
     \<exists>evs. l' = log @ pre @ evs \<and> plain evs"
  using save_pages_log [of env folder fmt rs n saved "log @ pre"] by auto

lemma convertPdfToImages_log:
  "\<exists>evs. snd (convertPdfToImages env pdfPath o1 log) = log @ evs \<and> plain evs"
  unfolding convertPdfToImages_def Let_def
  by (auto split: option.splits sum.splits prod.splits dest!: save_pages_logD)

lemma plain_recognize: "plain (map (\<lambda>f. Recognize (g f)) files)"
  by (induction files) simp_all

lemma ocrImages_events:
  "\<exists>evs. snd (ocrImages env folder o2 log) = log @ ExistsSync folder # evs \<and> plain evs"
  unfolding ocrImages_def Let_def
  by (auto simp: plain_recognize split: option.splits sum.splits prod.splits
        dest!: ocr_pages_logD)

lemma ocrImages_log:
  "\<exists>evs. snd (ocrImages env folder o2 log) = log @ evs \<and> plain evs"
proof -
  obtain evs where "snd (ocrImages env folder o2 log) = log @ ExistsSync folder # evs" "plain evs"
    using ocrImages_events by blast
  then show ?thesis
    by (intro exI [of _ "ExistsSync folder # evs"]) simp
qed

lemma convertPdfToText_cases:
  "convertPdfToText env pdfPath opts log =
     (case convertPdfToImages env pdfPath (images_args opts) log of
        (Inl e, log1) \<Rightarrow> (Inl e, log1)
      | (Inr (images, folder), log1) \<Rightarrow>
          (case ocrImages env folder (ocr_args pdfPath opts) log1 of
             (Inl e, log2) \<Rightarrow> (Inl e, log2)
           | (Inr resultFile, log2) \<Rightarrow>
               (Inr resultFile,
                if or_default (ct_keepImages opts) False then log2 else log2 @ [RmSync folder])))"
  by (simp add: convertPdfToText_def images_args_def ocr_args_def Let_def
        split: prod.splits sum.splits option.splits)

lemma save_page_rm_indep:
  "save_page (env\<lparr>rmSync := g\<rparr>) folder fmt r n saved log = save_page env folder fmt r n saved log"
  by (simp add: save_page_def Let_def split: option.splits)

lemma save_pages_rm_indep:
  "save_pages (env\<lparr>rmSync := g\<rparr>) folder fmt rs n saved log = save_pages env folder fmt rs n saved log"
  by (induction rs arbitrary: n saved log)
     (simp_all add: save_page_rm_indep split: prod.splits option.splits)

lemma convertPdfToImages_rm_indep:
  "convertPdfToImages (env\<lparr>rmSync := g\<rparr>) pdfPath o1 log = convertPdfToImages env pdfPath o1 log"
  by (simp add: convertPdfToImages_def Let_def save_pages_rm_indep
        split: option.splits sum.splits prod.splits)

lemma ocr_page_rm_indep:
  "ocr_page (env\<lparr>rmSync := g\<rparr>) folder sep f n t log = ocr_page env folder sep f n t log"
  by (simp add: ocr_page_def Let_def split: sum.splits thrown.splits)

lemma ocr_pages_rm_indep:
  "ocr_pages (env\<lparr>rmSync := g\<rparr>) folder sep files n t log = ocr_pages env folder sep files n t log"
  by (induction files arbitrary: n t log)
     (simp_all add: ocr_page_rm_indep split: prod.splits sum.splits)

lemma ocrImages_rm_indep:
  "ocrImages (env\<lparr>rmSync := g\<rparr>) folder o2 log = ocrImages env folder o2 log"
  by (simp add: ocrImages_def Let_def ocr_pages_rm_indep
        split: option.splits sum.splits prod.splits)

lemma plain_no_rm: "plain evs \<Longrightarrow> RmSync f \<notin> set evs"
  by (auto simp: plain_def)

text \<open>
  Claim C7. \<open>convertPdfToText\<close> calls \<open>rmSync\<close> (on the image folder, as its last
  call) exactly when recognition succeeded and \<open>keepImages\<close> is false. Its result
  does not depend on what \<open>rmSync\<close> answers: a failing removal is not escalated.
  When rasterisation throws, or recognition throws, the same exception leaves
  \<open>convertPdfToText\<close> and no removal is called, so the folder is left in place.
\<close>

theorem convertPdfToText_cleanup:
  "\<exists>evs. snd (convertPdfToText env pdfPath opts log) = log @ evs \<and>
     ((\<exists>f. RmSync f \<in> set evs) \<longleftrightarrow>
        (\<exists>resultFile. fst (convertPdfToText env pdfPath opts log) = Inr resultFile) \<and>
        \<not> or_default (ct_keepImages opts) False) \<and>
     (\<forall>e log1. convertPdfToImages env pdfPath (images_args opts) log = (Inl e, log1) \<longrightarrow>
        convertPdfToText env pdfPath opts log = (Inl e, log1)) \<and>
     (\<forall>images folder log1.
        convertPdfToImages env pdfPath (images_args opts) log = (Inr (images, folder), log1) \<longrightarrow>
        (\<forall>e log2. ocrImages env folder (ocr_args pdfPath opts) log1 = (Inl e, log2) \<longrightarrow>
           convertPdfToText env pdfPath opts log = (Inl e, log2)) \<and>
        (\<forall>resultFile log2.
           ocrImages env folder (ocr_args pdfPath opts) log1 = (Inr resultFile, log2) \<longrightarrow>
           convertPdfToText env pdfPath opts log =
             (Inr resultFile,
              if or_default (ct_keepImages opts) False then log2 else log2 @ [RmSync folder]))) \<and>
     (\<forall>g. fst (convertPdfToText (env\<lparr>rmSync := g\<rparr>) pdfPath opts log) =
          fst (convertPdfToText env pdfPath opts log))"
proof -
  obtain r1 log1 where conv: "convertPdfToImages env pdfPath (images_args opts) log = (r1, log1)"
    by (cases "convertPdfToImages env pdfPath (images_args opts) log") auto
  obtain evs1 where e1: "log1 = log @ evs1" "plain evs1"
    using convertPdfToImages_log [of env pdfPath "images_args opts" log] conv by auto
  have indep: "fst (convertPdfToText (env\<lparr>rmSync := g\<rparr>) pdfPath opts log) =
               fst (convertPdfToText env pdfPath opts log)" for g
    by (simp add: convertPdfToText_cases convertPdfToImages_rm_indep ocrImages_rm_indep
          split: prod.splits sum.splits)
  show ?thesis
  proof (cases r1)
    case (Inl e)
    then have "convertPdfToText env pdfPath opts log = (Inl e, log @ evs1)"
      using conv e1 by (simp add: convertPdfToText_cases)
    then show ?thesis
      using conv Inl e1 indep plain_no_rm [OF e1(2)]
      by (intro exI [of _ evs1]) auto
  next
    case (Inr pair)
    obtain images folder where pair: "pair = (images, folder)" by (cases pair) auto
    obtain r2 log2 where ocr: "ocrImages env folder (ocr_args pdfPath opts) log1 = (r2, log2)"
      by (cases "ocrImages env folder (ocr_args pdfPath opts) log1") auto
    obtain evs2 where e2: "log2 = log1 @ evs2" "plain evs2"
      using ocrImages_log [of env folder "ocr_args pdfPath opts" log1] ocr by auto
    have both: "plain (evs1 @ evs2)" using e1 e2 by simp
    show ?thesis
    proof (cases r2)
      case (Inl e)
      then have "convertPdfToText env pdfPath opts log = (Inl e, log @ evs1 @ evs2)"
        using conv Inr pair ocr e1 e2 by (simp add: convertPdfToText_cases)
      then show ?thesis
        using conv Inr pair ocr Inl e1 e2 indep plain_no_rm [OF both]
        by (intro exI [of _ "evs1 @ evs2"]) auto
    next
      case inr: (Inr resultFile)
      show ?thesis
      proof (cases "or_default (ct_keepImages opts) False")
        case True
        then have "convertPdfToText env pdfPath opts log = (Inr resultFile, log @ evs1 @ evs2)"
          using conv Inr pair ocr inr e1 e2 by (simp add: convertPdfToText_cases)
        then show ?thesis
          using conv Inr pair ocr inr True e1 e2 indep plain_no_rm [OF both]
          by (intro exI [of _ "evs1 @ evs2"]) auto
      next
        case False
        then have "convertPdfToText env pdfPath opts log =
                     (Inr resultFile, log @ evs1 @ evs2 @ [RmSync folder])"
          using conv Inr pair ocr inr e1 e2 by (simp add: convertPdfToText_cases)
        then show ?thesis
          using conv Inr pair ocr inr False e1 e2 indep
          by (intro exI [of _ "evs1 @ evs2 @ [RmSync folder]"]) auto
      qed
    qed
  qed
qed

lemma ocrImages_first_call:
  "\<exists>evs. snd (ocrImages env folder o2 log) = log @ ExistsSync folder # evs"
  using ocrImages_events [of env folder o2 log] by blast

text \<open>
  Claim C1, as amended. \<open>convertPdfToText\<close> has no check of the number of pages:
  when rasterisation yields no page image, it still calls \<open>ocrImages\<close> on the image
  folder, and its result is that of \<open>ocrImages\<close>. When the folder exists and lists
  no file with an allowed image extension and the \<open>page_\<close> prefix, that result is
  the exception \<open>No image files found in <folder>\<close>, thrown after the folder was
  listed and before any OCR worker is created.
\<close>

theorem no_pages_still_recognises:
  assumes "convertPdfToImages env pdfPath (images_args opts) log = (Inr ([], folder), log1)"
  shows "fst (convertPdfToText env pdfPath opts log) =
           fst (ocrImages env folder (ocr_args pdfPath opts) log1) \<and>
         (\<exists>evs. snd (convertPdfToText env pdfPath opts log) = log1 @ ExistsSync folder # evs) \<and>
         (\<forall>names.
            existsSync env log1 folder \<and>
            readdirSync env (log1 @ [ExistsSync folder]) folder = Inr names \<and>
            image_files ''page_'' names = [] \<longrightarrow>
            convertPdfToText env pdfPath opts log =
              (Inl (Error (''No image files found in '' @ folder)),
               log1 @ [ExistsSync folder, ReaddirSync folder]))"
proof (intro conjI allI impI)
  show "fst (convertPdfToText env pdfPath opts log) =
           fst (ocrImages env folder (ocr_args pdfPath opts) log1)"
    using assms by (simp add: convertPdfToText_cases split: prod.splits sum.splits)
next
  obtain evs where "snd (ocrImages env folder (ocr_args pdfPath opts) log1) =
                      log1 @ ExistsSync folder # evs"
    using ocrImages_first_call by blast
  then show "\<exists>evs. snd (convertPdfToText env pdfPath opts log) = log1 @ ExistsSync folder # evs"
    using assms by (auto simp: convertPdfToText_cases split: prod.splits sum.splits)
next
  fix names
  assume "existsSync env log1 folder \<and>
          readdirSync env (log1 @ [ExistsSync folder]) folder = Inr names \<and>
          image_files ''page_'' names = []"
  then have "ocrImages env folder (ocr_args pdfPath opts) log1 =
               (Inl (Error (''No image files found in '' @ folder)),
                log1 @ [ExistsSync folder, ReaddirSync folder])"
    by (simp add: ocrImages_def ocr_args_def or_default_def Let_def)
  then show "convertPdfToText env pdfPath opts log =
              (Inl (Error (''No image files found in '' @ folder)),
               log1 @ [ExistsSync folder, ReaddirSync folder])"
    using assms by (simp add: convertPdfToText_cases)
qed

text \<open>
  The theorem on a document that rasterises to no page, with an empty image folder.
\<close>

theorem no_pages_still_recognises_witness:
  "convertPdfToImages (no_pages []) ''doc.pdf'' (images_args default_text_options) [] =
     (Inr ([], ''doc_images''),
      [ExistsSync ''doc.pdf'', ExistsSync ''doc_images'',
       Bulk ''doc.pdf'' ''doc_images'' ''png'' 300 100]) \<and>
   existsSync (no_pages []) [ExistsSync ''doc.pdf'', ExistsSync ''doc_images'',
       Bulk ''doc.pdf'' ''doc_images'' ''png'' 300 100] ''doc_images'' \<and>
   image_files ''page_'' [] = [] \<and>
   convertPdfToText (no_pages []) ''doc.pdf'' default_text_options [] =
     (Inl (Error ''No image files found in doc_images''),
      [ExistsSync ''doc.pdf'', ExistsSync ''doc_images'',
       Bulk ''doc.pdf'' ''doc_images'' ''png'' 300 100,
       ExistsSync ''doc_images'', ReaddirSync ''doc_images''])"
proof -
  let ?log1 = "[ExistsSync ''doc.pdf'', ExistsSync ''doc_images'',
                Bulk ''doc.pdf'' ''doc_images'' ''png'' 300 100]"
  have conv: "convertPdfToImages (no_pages []) ''doc.pdf'' (images_args default_text_options) [] =
                (Inr ([], ''doc_images''), ?log1)"
    by code_simp
  have ex: "existsSync (no_pages []) ?log1 ''doc_images''"
    by (simp add: no_pages_def sample_env_def)
  have rd: "readdirSync (no_pages []) (?log1 @ [ExistsSync ''doc_images'']) ''doc_images'' = Inr []"
    by (simp add: no_pages_def sample_env_def)
  have none: "image_files ''page_'' [] = []"
    by (simp add: image_files_def)
  show ?thesis
    using no_pages_still_recognises [OF conv] conv ex rd none by simp
qed

text \<open>
  Claim C1 as stated fails. Rasterisation yields no page image and the image folder
  already holds \<open>page_001.png\<close> from an earlier run: \<open>convertPdfToText\<close> calls the
  recogniser on that file and returns the output path. With an empty folder it lists
  the folder, inside \<open>ocrImages\<close>, and what it throws is the exception of
  \<open>ocrImages\<close> for an empty file set.
\<close>

theorem no_pages_counterexample:
  "fst (convertPdfToImages (no_pages [''page_001.png'']) ''doc.pdf''
          (images_args default_text_options) []) = Inr ([], ''doc_images'') \<and>
   fst (convertPdfToText (no_pages [''page_001.png'']) ''doc.pdf'' default_text_options []) =
     Inr ''doc_ocr_results.txt'' \<and>
   Recognize ''doc_images/page_001.png'' \<in>
     set (snd (convertPdfToText (no_pages [''page_001.png'']) ''doc.pdf'' default_text_options [])) \<and>
   fst (convertPdfToImages (no_pages []) ''doc.pdf'' (images_args default_text_options) []) =
     Inr ([], ''doc_images'') \<and>
   fst (convertPdfToText (no_pages []) ''doc.pdf'' default_text_options []) =
     Inl (Error ''No image files found in doc_images'') \<and>
   ReaddirSync ''doc_images'' \<in>
     set (snd (convertPdfToText (no_pages []) ''doc.pdf'' default_text_options []))"
  by code_simp

text \<open>
  The theorem on a one-page document: the folder is removed after success, a failing
  removal leaves the result unchanged, \<open>keepImages\<close> suppresses the removal, and a
  missing source fails without any removal.
\<close>

theorem convertPdfToText_cleanup_witness:
  "convertPdfToText one_page ''doc.pdf'' default_text_options [] =
     (Inr ''doc_ocr_results.txt'',
      [ExistsSync ''doc.pdf'', ExistsSync ''doc_images'',
       Bulk ''doc.pdf'' ''doc_images'' ''png'' 300 100,
       ExistsSync ''doc_images/page.1.png'',
       RenameSync ''doc_images/page.1.png'' ''doc_images/page_001.png'',
       ExistsSync ''doc_images'', ReaddirSync ''doc_images'',
       CreateWorker ''ara'', Recognize ''doc_images/page_001.png'', Terminate,
       WriteFileSync ''doc_ocr_results.txt'' ''\<newline>\<newline>=== PAGE 1 ===\<newline>\<newline>text\<newline>'',
       RmSync ''doc_images'']) \<and>
   fst (convertPdfToText (one_page\<lparr>rmSync := (\<lambda>h p. Some (Error ''EBUSY''))\<rparr>) ''doc.pdf''
          default_text_options []) = Inr ''doc_ocr_results.txt'' \<and>
   convertPdfToText one_page ''doc.pdf'' (default_text_options\<lparr>ct_keepImages := Some True\<rparr>) [] =
     (Inr ''doc_ocr_results.txt'',
      [ExistsSync ''doc.pdf'', ExistsSync ''doc_images'',
       Bulk ''doc.pdf'' ''doc_images'' ''png'' 300 100,
       ExistsSync ''doc_images/page.1.png'',
       RenameSync ''doc_images/page.1.png'' ''doc_images/page_001.png'',
       ExistsSync ''doc_images'', ReaddirSync ''doc_images'',
       CreateWorker ''ara'', Recognize ''doc_images/page_001.png'', Terminate,
       WriteFileSync ''doc_ocr_results.txt'' ''\<newline>\<newline>=== PAGE 1 ===\<newline>\<newline>text\<newline>'']) \<and>
   convertPdfToText missing_pdf ''doc.pdf'' default_text_options [] =
     (Inl (Error ''PDF file not found: doc.pdf''), [ExistsSync ''doc.pdf''])"
proof -
  have run: "convertPdfToText one_page ''doc.pdf'' default_text_options [] =
     (Inr ''doc_ocr_results.txt'',
      [ExistsSync ''doc.pdf'', ExistsSync ''doc_images'',
       Bulk ''doc.pdf'' ''doc_images'' ''png'' 300 100,
       ExistsSync ''doc_images/page.1.png'',
       RenameSync ''doc_images/page.1.png'' ''doc_images/page_001.png'',
       ExistsSync ''doc_images'', ReaddirSync ''doc_images'',
       CreateWorker ''ara'', Recognize ''doc_images/page_001.png'', Terminate,
       WriteFileSync ''doc_ocr_results.txt'' ''\<newline>\<newline>=== PAGE 1 ===\<newline>\<newline>text\<newline>'',
       RmSync ''doc_images''])"
    by code_simp
  have kept: "convertPdfToText one_page ''doc.pdf'' (default_text_options\<lparr>ct_keepImages := Some True\<rparr>) [] =
     (Inr ''doc_ocr_results.txt'',
      [ExistsSync ''doc.pdf'', ExistsSync ''doc_images'',
       Bulk ''doc.pdf'' ''doc_images'' ''png'' 300 100,
       ExistsSync ''doc_images/page.1.png'',
       RenameSync ''doc_images/page.1.png'' ''doc_images/page_001.png'',
       ExistsSync ''doc_images'', ReaddirSync ''doc_images'',
       CreateWorker ''ara'', Recognize ''doc_images/page_001.png'', Terminate,
       WriteFileSync ''doc_ocr_results.txt'' ''\<newline>\<newline>=== PAGE 1 ===\<newline>\<newline>text\<newline>''])"
    by code_simp
  have missing: "convertPdfToText missing_pdf ''doc.pdf'' default_text_options [] =
     (Inl (Error ''PDF file not found: doc.pdf''), [ExistsSync ''doc.pdf''])"
    by code_simp
  have "fst (convertPdfToText (one_page\<lparr>rmSync := (\<lambda>h p. Some (Error ''EBUSY''))\<rparr>) ''doc.pdf''
          default_text_options []) = fst (convertPdfToText one_page ''doc.pdf'' default_text_options [])"
    using convertPdfToText_cleanup [of one_page "''doc.pdf''" default_text_options "[]"] by blast
  then show ?thesis
    using run kept missing by simp
qed

section \<open>Properties of batchProcessPdfs\<close>

lemma chunks_of_Nil [simp]: "chunks_of c [] = []"
  by (simp add: chunks_of.simps)

lemma js_slice_chunk:
  "i < length xs \<Longrightarrow> js_slice xs (int i) (int i + int c) = take c (drop i xs)"
  by (simp add: js_slice_def Let_def min_def nat_diff_distrib' nat_add_distrib)

lemma process_chunks_eq:
  assumes "1 \<le> c"
  shows "process_chunks env sched opts pdfFiles (int c) (int i) st =
           Some (fold (run_chunk env sched opts) (chunks_of c (drop i pdfFiles)) st)"
proof (induction "length pdfFiles - i" arbitrary: i st rule: less_induct)
  case less
  show ?case
  proof (cases "i < length pdfFiles")
    case False
    then show ?thesis
      by (subst process_chunks.simps) simp
  next
    case True
    have smaller: "length pdfFiles - (i + c) < length pdfFiles - i"
      using True assms by simp
    have next_index: "int i + int c = int (i + c)" by simp
    have step: "process_chunks env sched opts pdfFiles (int c) (int i) st =
                process_chunks env sched opts pdfFiles (int c) (int (i + c))
                  (run_chunk env sched opts (take c (drop i pdfFiles)) st)"
      using True by (subst process_chunks.simps) (simp add: js_slice_chunk)
    have unfold: "chunks_of c (drop i pdfFiles) =
                    take c (drop i pdfFiles) # chunks_of c (drop (i + c) pdfFiles)"
      using True assms by (subst chunks_of.simps) (simp add: add.commute)
    show ?thesis
      using less [OF smaller] step unfold by simp
  qed
qed

lemma concat_chunks_of: "1 \<le> c \<Longrightarrow> concat (chunks_of c xs) = xs"
proof (induction c xs rule: chunks_of.induct)
  case (1 c xs)
  then show ?case
    by (subst chunks_of.simps) auto
qed

lemma chunks_of_sizes:
  "ch \<in> set (chunks_of c xs) \<Longrightarrow> 1 \<le> length ch \<and> length ch \<le> c"
proof (induction c xs rule: chunks_of.induct)
  case (1 c xs)
  show ?case
  proof (cases "c = 0 \<or> xs = []")
    case True
    then show ?thesis using 1(2) by (simp add: chunks_of.simps)
  next
    case False
    then have "ch = take c xs \<or> ch \<in> set (chunks_of c (drop c xs))"
      using 1(2) by (subst (asm) chunks_of.simps) auto
    then show ?thesis
    proof
      assume "ch = take c xs"
      then show ?thesis using False by (cases xs) auto
    next
      assume "ch \<in> set (chunks_of c (drop c xs))"
      then show ?thesis using 1(1) False by blast
    qed
  qed
qed

lemma net_simps [simp]:
  "net [] = 0" "net (e # evs) = delta e + net evs" "net (xs @ ys) = net xs + net ys"
  by (simp_all add: net_def)

lemma within_start: "within b cur evs \<Longrightarrow> cur \<le> b"
  by (cases evs) auto

lemma within_append:
  "within b cur (xs @ ys) \<longleftrightarrow> within b cur xs \<and> within b (cur + net xs) ys"
  by (induction xs arbitrary: cur) (auto simp: add.assoc dest: within_start)

lemma delta_unmarked: "\<not> marks e \<Longrightarrow> delta e = 0"
  by (cases e) auto

lemma convertPdfToText_log:
  "\<exists>evs. snd (convertPdfToText env pdfPath opts log) = log @ evs \<and>
         (\<forall>e\<in>set evs. \<not> marks e)"
proof -
  obtain r1 log1 where conv: "convertPdfToImages env pdfPath (images_args opts) log = (r1, log1)"
    by (cases "convertPdfToImages env pdfPath (images_args opts) log") auto
  obtain evs1 where e1: "log1 = log @ evs1" "plain evs1"
    using convertPdfToImages_log [of env pdfPath "images_args opts" log] conv by auto
  show ?thesis
  proof (cases r1)
    case (Inl e)
    then show ?thesis
      using conv e1 by (intro exI [of _ evs1]) (auto simp: convertPdfToText_cases plain_def)
  next
    case (Inr pair)
    obtain images folder where pair: "pair = (images, folder)" by (cases pair) auto
    obtain r2 log2 where ocr: "ocrImages env folder (ocr_args pdfPath opts) log1 = (r2, log2)"
      by (cases "ocrImages env folder (ocr_args pdfPath opts) log1") auto
    obtain evs2 where e2: "log2 = log1 @ evs2" "plain evs2"
      using ocrImages_log [of env folder "ocr_args pdfPath opts" log1] ocr by auto
    show ?thesis
      using conv Inr pair ocr e1 e2
      by (cases r2; cases "or_default (ct_keepImages opts) False")
         (auto simp: convertPdfToText_cases plain_def)
  qed
qed

lemma quiet_simps [simp]:
  "quiet []" "quiet (e # evs) \<longleftrightarrow> \<not> marks e \<and> quiet evs"
  "quiet (xs @ ys) \<longleftrightarrow> quiet xs \<and> quiet ys"
  by (auto simp: quiet_def)

lemma quiet_net: "quiet evs \<Longrightarrow> net evs = 0"
  by (induction evs) (auto simp: delta_unmarked)

lemma quiet_within: "quiet evs \<Longrightarrow> cur \<le> b \<Longrightarrow> within b cur evs"
  by (induction evs arbitrary: cur) (auto simp: delta_unmarked)

lemma process_pdf_effect:
  "\<exists>evs. trace (process_pdf env opts job st) = trace st @ evs @ [Settled (filename (fst job))] \<and>
         quiet evs \<and>
         mset (entry_names (process_pdf env opts job st)) =
           add_mset (filename (fst job)) (mset (entry_names st)) \<and>
         (\<exists>extra. failures (process_pdf env opts job st) = failures st @ extra)"
proof -
  let ?o = "\<lparr> ct_outputText =
                Some (path_join (or_default (bp_outputFolder opts) ''batch_ocr_results'')
                        (pdf_basename (fst job) @ ''_ocr.txt'')),
              ct_tempImagesFolder =
                Some (path_join (or_default (bp_outputFolder opts) ''batch_ocr_results'')
                        (pdf_basename (fst job) @ ''_temp_images'')),
              ct_keepImages = Some (or_default (bp_keepImages opts) False),
              ct_imageFormat = Some (or_default (bp_imageFormat opts) ''png''),
              ct_density = Some (or_default (bp_density opts) 300),
              ct_language = Some (or_default (bp_language opts) ''ara'') \<rparr>"
  obtain r log1 where run: "convertPdfToText env (fullPath (fst job)) ?o (trace st) = (r, log1)"
    by (cases "convertPdfToText env (fullPath (fst job)) ?o (trace st)") auto
  obtain evs where evs: "log1 = trace st @ evs" "quiet evs"
    using convertPdfToText_log [of env "fullPath (fst job)" ?o "trace st"] run
    by (auto simp: quiet_def)
  show ?thesis
    using run evs
    by (cases r) (auto simp: process_pdf_def Let_def entry_names_def intro!: exI [of _ evs])
qed

lemma process_pdf_missing:
  assumes "source_missing env (fst job)"
  shows "reported_missing (fst job) (failures (process_pdf env opts job st))"
proof -
  have "convertPdfToImages env (fullPath (fst job)) o1 log =
          (Inl (Error (''PDF file not found: '' @ fullPath (fst job))),
           log @ [ExistsSync (fullPath (fst job))])" for o1 log
    using assms by (simp add: convertPdfToImages_def source_missing_def Let_def)
  then show ?thesis
    by (auto simp: process_pdf_def Let_def convertPdfToText_cases reported_missing_def)
qed

lemma settling_simps [simp]:
  "settling []" "settling (e # evs) \<longleftrightarrow> delta e \<le> 0 \<and> settling evs"
  "settling (xs @ ys) \<longleftrightarrow> settling xs \<and> settling ys"
  by (auto simp: settling_def)

lemma quiet_settling: "quiet evs \<Longrightarrow> settling evs"
  by (auto simp: quiet_def settling_def delta_unmarked)

lemma settling_within: "settling evs \<Longrightarrow> cur \<le> b \<Longrightarrow> within b cur evs"
proof (induction evs arbitrary: cur)
  case Nil
  then show ?case by simp
next
  case (Cons e evs)
  then have "cur + delta e \<le> b" by simp
  then show ?case using Cons by simp
qed

lemma reported_missing_append:
  "reported_missing pdf es \<Longrightarrow> reported_missing pdf (es @ extra)"
  by (auto simp: reported_missing_def)

lemma settle_effect:
  "\<exists>evs. trace (settle env opts jobs st) = trace st @ evs \<and>
         settling evs \<and> net evs = - int (length jobs) \<and>
         mset (entry_names (settle env opts jobs st)) =
           mset (map (\<lambda>j. filename (fst j)) jobs) + mset (entry_names st) \<and>
         (\<exists>extra. failures (settle env opts jobs st) = failures st @ extra) \<and>
         (\<forall>j\<in>set jobs. source_missing env (fst j) \<longrightarrow>
            reported_missing (fst j) (failures (settle env opts jobs st)))"
proof (induction jobs arbitrary: st)
  case Nil
  then show ?case by simp
next
  case (Cons job jobs)
  let ?st1 = "process_pdf env opts job st"
  obtain evs1 extra1 where one:
      "trace ?st1 = trace st @ evs1 @ [Settled (filename (fst job))]" "quiet evs1"
      "mset (entry_names ?st1) = add_mset (filename (fst job)) (mset (entry_names st))"
      "failures ?st1 = failures st @ extra1"
    using process_pdf_effect [of env opts job st] by blast
  obtain evs2 extra2 where rest:
      "trace (settle env opts jobs ?st1) = trace ?st1 @ evs2" "settling evs2"
      "net evs2 = - int (length jobs)"
      "mset (entry_names (settle env opts jobs ?st1)) =
         mset (map (\<lambda>j. filename (fst j)) jobs) + mset (entry_names ?st1)"
      "failures (settle env opts jobs ?st1) = failures ?st1 @ extra2"
      "\<forall>j\<in>set jobs. source_missing env (fst j) \<longrightarrow>
         reported_missing (fst j) (failures (settle env opts jobs ?st1))"
    using Cons.IH [of ?st1] by blast
  have first: "source_missing env (fst job) \<longrightarrow>
                 reported_missing (fst job) (failures (settle env opts jobs ?st1))"
    using process_pdf_missing [of env job opts st] rest(5) reported_missing_append by auto
  show ?case
    using one rest first
    by (intro exI [of _ "evs1 @ [Settled (filename (fst job))] @ evs2"])
       (auto simp: quiet_net quiet_settling)
qed

lemma launch_effect:
  "snd (launch env batch log) = log @ map (\<lambda>p. Launched (filename p)) batch \<and>
   map fst (fst (launch env batch log)) = batch"
proof (induction batch arbitrary: log)
  case Nil
  then show ?case by simp
next
  case (Cons pdf batch)
  obtain jobs log1 where rest: "launch env batch (log @ [Launched (filename pdf)]) = (jobs, log1)"
    by (cases "launch env batch (log @ [Launched (filename pdf)])") auto
  then show ?case
    using Cons [of "log @ [Launched (filename pdf)]"] by simp
qed

lemma launches_within:
  "0 \<le> cur \<Longrightarrow> cur + int (length ps) \<le> b \<Longrightarrow> within b cur (map (\<lambda>p. Launched (g p)) ps)"
  by (induction ps arbitrary: cur) auto

lemma launches_net: "net (map (\<lambda>p. Launched (g p)) ps) = int (length ps)"
  by (induction ps) auto

lemma run_chunk_effect:
  assumes "rearranges sched"
  shows "\<exists>evs. trace (run_chunk env sched opts batch st) =
                 trace st @ map (\<lambda>p. Launched (filename p)) batch @ evs \<and>
         settling evs \<and> net evs = - int (length batch) \<and>
         mset (entry_names (run_chunk env sched opts batch st)) =
           mset (map filename batch) + mset (entry_names st) \<and>
         (\<exists>extra. failures (run_chunk env sched opts batch st) = failures st @ extra) \<and>
         (\<forall>pdf\<in>set batch. source_missing env pdf \<longrightarrow>
            reported_missing pdf (failures (run_chunk env sched opts batch st)))"
proof -
  obtain jobs log1 where l: "launch env batch (trace st) = (jobs, log1)"
    by (cases "launch env batch (trace st)") auto
  have log1: "log1 = trace st @ map (\<lambda>p. Launched (filename p)) batch"
    and jobs: "map fst jobs = batch"
    using launch_effect [of env batch "trace st"] l by simp_all
  let ?order = "sched log1 jobs"
  let ?st1 = "st\<lparr>trace := log1\<rparr>"
  have perm: "mset ?order = mset jobs"
    using assms by (simp add: rearranges_def)
  have len: "length ?order = length batch"
    using perm jobs by (metis length_map size_mset)
  have names: "mset (map (\<lambda>j. filename (fst j)) ?order) = mset (map filename batch)"
  proof -
    have "mset (map (\<lambda>j. filename (fst j)) ?order) = mset (map (\<lambda>j. filename (fst j)) jobs)"
      using perm by (metis mset_map)
    also have "map (\<lambda>j. filename (fst j)) jobs = map filename (map fst jobs)"
      by simp
    finally show ?thesis using jobs by simp
  qed
  have members: "fst ` set ?order = set batch"
    using perm jobs by (metis set_map set_mset_mset)
  obtain evs extra where s:
      "trace (settle env opts ?order ?st1) = trace ?st1 @ evs" "settling evs"
      "net evs = - int (length ?order)"
      "mset (entry_names (settle env opts ?order ?st1)) =
         mset (map (\<lambda>j. filename (fst j)) ?order) + mset (entry_names ?st1)"
      "failures (settle env opts ?order ?st1) = failures ?st1 @ extra"
      "\<forall>j\<in>set ?order. source_missing env (fst j) \<longrightarrow>
         reported_missing (fst j) (failures (settle env opts ?order ?st1))"
    using settle_effect [of env opts ?order ?st1] by blast
  have run: "run_chunk env sched opts batch st = settle env opts ?order ?st1"
    using l by (simp add: run_chunk_def)
  have missing: "\<forall>pdf\<in>set batch. source_missing env pdf \<longrightarrow>
                   reported_missing pdf (failures (settle env opts ?order ?st1))"
    using s(6) members by force
  show ?thesis
    using s(1-5) missing log1 len names unfolding run
    by (intro exI [of _ evs]) (auto simp: entry_names_def)
qed

lemma run_chunks_effect:
  assumes "rearranges sched" and "\<forall>ch\<in>set chs. int (length ch) \<le> b" and "0 \<le> b"
  shows "\<exists>evs. trace (fold (run_chunk env sched opts) chs st) = trace st @ evs \<and>
         within b 0 evs \<and> net evs = 0 \<and>
         mset (entry_names (fold (run_chunk env sched opts) chs st)) =
           mset (map filename (concat chs)) + mset (entry_names st) \<and>
         (\<exists>extra. failures (fold (run_chunk env sched opts) chs st) = failures st @ extra) \<and>
         (\<forall>pdf\<in>set (concat chs). source_missing env pdf \<longrightarrow>
            reported_missing pdf (failures (fold (run_chunk env sched opts) chs st)))"
  using assms(2)
proof (induction chs arbitrary: st)
  case Nil
  then show ?case using assms(3) by simp
next
  case (Cons ch chs)
  let ?st1 = "run_chunk env sched opts ch st"
  let ?launches = "map (\<lambda>p. Launched (filename p)) ch"
  obtain evs1 extra1 where one:
      "trace ?st1 = trace st @ ?launches @ evs1" "settling evs1"
      "net evs1 = - int (length ch)"
      "mset (entry_names ?st1) = mset (map filename ch) + mset (entry_names st)"
      "failures ?st1 = failures st @ extra1"
      "\<forall>pdf\<in>set ch. source_missing env pdf \<longrightarrow> reported_missing pdf (failures ?st1)"
    using run_chunk_effect [OF assms(1), of env opts ch st] by blast
  obtain evs2 extra2 where rest:
      "trace (fold (run_chunk env sched opts) chs ?st1) = trace ?st1 @ evs2"
      "within b 0 evs2" "net evs2 = 0"
      "mset (entry_names (fold (run_chunk env sched opts) chs ?st1)) =
         mset (map filename (concat chs)) + mset (entry_names ?st1)"
      "failures (fold (run_chunk env sched opts) chs ?st1) = failures ?st1 @ extra2"
      "\<forall>pdf\<in>set (concat chs). source_missing env pdf \<longrightarrow>
         reported_missing pdf (failures (fold (run_chunk env sched opts) chs ?st1))"
    using Cons.IH [of ?st1] Cons.prems by auto
  have size: "int (length ch) \<le> b" using Cons.prems by simp
  have w1: "within b 0 ?launches"
    using size by (intro launches_within) simp_all
  have w2: "within b (int (length ch)) evs1"
    using one(2) size by (rule settling_within)
  have w: "within b 0 (?launches @ evs1 @ evs2)"
    using w1 w2 rest(2) one(3) by (simp add: within_append launches_net)
  have n: "net (?launches @ evs1 @ evs2) = 0"
    using one(3) rest(3) by (simp add: launches_net)
  have kept: "\<forall>pdf\<in>set ch. source_missing env pdf \<longrightarrow>
                reported_missing pdf (failures (fold (run_chunk env sched opts) chs ?st1))"
    using one(6) rest(5) reported_missing_append by auto
  show ?case
    using one(1,4,5) rest(1,4,5,6) w n kept
    by (intro exI [of _ "?launches @ evs1 @ evs2"]) auto
qed


lemma later_state_refl [simp]: "later_state st st"
  by (simp add: later_state_def)

lemma later_state_trans: "later_state a b \<Longrightarrow> later_state b c \<Longrightarrow> later_state a c"
  by (auto simp: later_state_def)

lemma recorded_later:
  "recorded pdf outcome rs es \<Longrightarrow> set rs \<subseteq> set rs' \<Longrightarrow> set es \<subseteq> set es' \<Longrightarrow>
     recorded pdf outcome rs' es'"
  by (auto simp: recorded_def split: sum.splits)

lemma accounted_later:
  assumes "accounted env opts pdf (results st) (failures st) (trace st)" and "later_state st st'"
  shows "accounted env opts pdf (results st') (failures st') (trace st')"
proof -
  obtain h outcome log1 where a:
      "convertPdfToText env (fullPath pdf) (pipeline_args opts pdf) h = (outcome, log1)"
      "prefix (log1 @ [Settled (filename pdf)]) (trace st)"
      "recorded pdf outcome (results st) (failures st)"
    using assms(1) unfolding accounted_def by blast
  have "prefix (log1 @ [Settled (filename pdf)]) (trace st')"
    using a(2) assms(2) unfolding later_state_def by (meson prefix_order.trans)
  moreover have "recorded pdf outcome (results st') (failures st')"
    using a(3) assms(2) unfolding later_state_def by (meson recorded_later)
  ultimately show ?thesis
    using a(1) unfolding accounted_def by blast
qed

lemma process_pdf_cases:
  "process_pdf env opts job st =
     (case convertPdfToText env (fullPath (fst job)) (pipeline_args opts (fst job)) (trace st) of
        (Inr resultFile, log1) \<Rightarrow>
          st\<lparr> results := results st @
                 [\<lparr> ok_input = filename (fst job), ok_output = resultFile,
                    ok_duration = secondsFixed env (dateNow env log1 - snd job) \<rparr>],
              trace := log1 @ [Settled (filename (fst job))] \<rparr>
      | (Inl e, log1) \<Rightarrow>
          st\<lparr> failures := failures st @
                 [\<lparr> failed_input = filename (fst job), failed_error = message e,
                    failed_duration = secondsFixed env (dateNow env log1 - snd job) \<rparr>],
              trace := log1 @ [Settled (filename (fst job))] \<rparr>)"
  by (simp add: process_pdf_def pipeline_args_def Let_def)

lemma process_pdf_accounts:
  "accounted env opts (fst job) (results (process_pdf env opts job st))
     (failures (process_pdf env opts job st)) (trace (process_pdf env opts job st))"
proof -
  obtain outcome log1 where run:
      "convertPdfToText env (fullPath (fst job)) (pipeline_args opts (fst job)) (trace st) =
         (outcome, log1)"
    by (cases "convertPdfToText env (fullPath (fst job)) (pipeline_args opts (fst job)) (trace st)")
       auto
  let ?st1 = "process_pdf env opts job st"
  have settled: "prefix (log1 @ [Settled (filename (fst job))]) (trace ?st1)"
    using run by (cases outcome) (simp_all add: process_pdf_cases)
  have listed: "recorded (fst job) outcome (results ?st1) (failures ?st1)"
    using run by (cases outcome) (auto simp: process_pdf_cases recorded_def)
  show ?thesis
    unfolding accounted_def
    using run settled listed by blast
qed

lemma process_pdf_later: "later_state st (process_pdf env opts job st)"
proof -
  obtain evs where "trace (process_pdf env opts job st) =
                      trace st @ evs @ [Settled (filename (fst job))]"
    using process_pdf_effect [of env opts job st] by blast
  then have "prefix (trace st) (trace (process_pdf env opts job st))"
    by simp
  then show ?thesis
    unfolding later_state_def
    by (auto simp: process_pdf_cases split: prod.splits sum.splits)
qed

lemma settle_later: "later_state st (settle env opts jobs st)"
proof (induction jobs arbitrary: st)
  case Nil
  then show ?case by simp
next
  case (Cons job jobs)
  show ?case
    using later_state_trans [OF process_pdf_later Cons.IH] by simp
qed

lemma settle_accounts:
  "j \<in> set jobs \<Longrightarrow>
     accounted env opts (fst j) (results (settle env opts jobs st))
       (failures (settle env opts jobs st)) (trace (settle env opts jobs st))"
proof (induction jobs arbitrary: st)
  case Nil
  then show ?case by simp
next
  case (Cons job jobs)
  show ?case
  proof (cases "j = job")
    case True
    have one: "accounted env opts (fst job) (results (process_pdf env opts job st))
                 (failures (process_pdf env opts job st)) (trace (process_pdf env opts job st))"
      by (rule process_pdf_accounts)
    have rest: "later_state (process_pdf env opts job st)
                  (settle env opts jobs (process_pdf env opts job st))"
      by (rule settle_later)
    show ?thesis
      using accounted_later [OF one rest] True by simp
  next
    case False
    then have "j \<in> set jobs" using Cons.prems by simp
    then show ?thesis
      using Cons.IH by simp
  qed
qed

lemma run_chunk_later:
  "later_state st (run_chunk env sched opts batch st)"
proof -
  obtain jobs log1 where l: "launch env batch (trace st) = (jobs, log1)"
    by (cases "launch env batch (trace st)") auto
  have log1: "log1 = trace st @ map (\<lambda>p. Launched (filename p)) batch"
    using launch_effect [of env batch "trace st"] l by simp
  have first: "later_state st (st\<lparr>trace := log1\<rparr>)"
    by (simp add: later_state_def log1)
  show ?thesis
    using later_state_trans [OF first settle_later] l by (simp add: run_chunk_def)
qed

lemma run_chunk_accounts:
  assumes "rearranges sched" and "pdf \<in> set batch"
  shows "accounted env opts pdf (results (run_chunk env sched opts batch st))
           (failures (run_chunk env sched opts batch st))
           (trace (run_chunk env sched opts batch st))"
proof -
  obtain jobs log1 where l: "launch env batch (trace st) = (jobs, log1)"
    by (cases "launch env batch (trace st)") auto
  have jobs: "map fst jobs = batch"
    using launch_effect [of env batch "trace st"] l by simp
  have perm: "mset (sched log1 jobs) = mset jobs"
    using assms(1) by (simp add: rearranges_def)
  have "fst ` set (sched log1 jobs) = set batch"
    using perm jobs by (metis set_map set_mset_mset)
  then have "pdf \<in> fst ` set (sched log1 jobs)"
    using assms(2) by simp
  then obtain j where j: "j \<in> set (sched log1 jobs)" "fst j = pdf"
    by auto
  show ?thesis
    using settle_accounts [OF j(1), of env opts "st\<lparr>trace := log1\<rparr>"] j(2) l
    by (simp add: run_chunk_def)
qed

lemma run_chunks_later:
  "later_state st (fold (run_chunk env sched opts) chs st)"
proof (induction chs arbitrary: st)
  case Nil
  then show ?case by simp
next
  case (Cons ch chs)
  show ?case
    using later_state_trans [OF run_chunk_later Cons.IH] by simp
qed

lemma run_chunks_account:
  assumes "rearranges sched"
  shows "pdf \<in> set (concat chs) \<Longrightarrow>
     accounted env opts pdf (results (fold (run_chunk env sched opts) chs st))
       (failures (fold (run_chunk env sched opts) chs st))
       (trace (fold (run_chunk env sched opts) chs st))"
proof (induction chs arbitrary: st)
  case Nil
  then show ?case by simp
next
  case (Cons ch chs)
  show ?case
  proof (cases "pdf \<in> set ch")
    case True
    have one: "accounted env opts pdf (results (run_chunk env sched opts ch st))
                 (failures (run_chunk env sched opts ch st))
                 (trace (run_chunk env sched opts ch st))"
      by (rule run_chunk_accounts [OF assms True])
    have rest: "later_state (run_chunk env sched opts ch st)
                  (fold (run_chunk env sched opts) chs (run_chunk env sched opts ch st))"
      by (rule run_chunks_later)
    show ?thesis
      using accounted_later [OF one rest] by simp
  next
    case False
    then have "pdf \<in> set (concat chs)" using Cons.prems by simp
    then show ?thesis
      using Cons.IH by simp
  qed
qed

lemma sublist_after: "sublist xs ys \<Longrightarrow> sublist xs (ps @ ys)"
  by (metis append.assoc sublist_def)

lemma sublist_before: "sublist xs ys \<Longrightarrow> sublist xs (ys @ ss)"
  by (metis append.assoc sublist_def)

lemma failure_lines_entry:
  "i < length es \<Longrightarrow>
     sublist (decimal (k + i + 1) @ ''. '' @ failed_input (es ! i) @ ''\<newline>'' @
              ''   Error: '' @ failed_error (es ! i) @ ''\<newline>'')
       (failure_lines k es)"
proof (induction es arbitrary: k i)
  case Nil
  then show ?case by simp
next
  case (Cons e es)
  show ?case
  proof (cases i)
    case 0
    have "failure_lines k (e # es) =
            [] @ (decimal (k + 1) @ ''. '' @ failed_input e @ ''\<newline>'' @
                  ''   Error: '' @ failed_error e @ ''\<newline>'') @
            (''   Duration: '' @ failed_duration e @ ''s\<newline>\<newline>'' @ failure_lines (k + 1) es)"
      by simp
    then show ?thesis
      using 0 unfolding sublist_def by (metis add.right_neutral nth_Cons_0)
  next
    case (Suc j)
    then have "sublist (decimal (k + 1 + j + 1) @ ''. '' @ failed_input (es ! j) @ ''\<newline>'' @
                 ''   Error: '' @ failed_error (es ! j) @ ''\<newline>'')
                (failure_lines (k + 1) es)"
      using Cons.IH [of j "k + 1"] Cons.prems by simp
    then have "sublist (decimal (k + i + 1) @ ''. '' @ failed_input ((e # es) ! i) @ ''\<newline>'' @
                 ''   Error: '' @ failed_error ((e # es) ! i) @ ''\<newline>'')
                (failure_lines (k + 1) es)"
      using Suc by (simp add: add.commute add.left_commute)
    then show ?thesis
      using sublist_after [of _ "failure_lines (k + 1) es"
              "decimal (k + 1) @ ''. '' @ failed_input e @ ''\<newline>'' @
               ''   Error: '' @ failed_error e @ ''\<newline>'' @
               ''   Duration: '' @ failed_duration e @ ''s\<newline>\<newline>''"]
      by simp
  qed
qed

lemma summary_counts:
  "sublist (''Successful: '' @ decimal (length rs) @ ''\<newline>'' @
            ''Failed: '' @ decimal (length es) @ ''\<newline>'')
     (generateSummary env log rs es opts)"
proof -
  have "\<exists>post. generateSummary env log rs es opts =
      (''BATCH PDF TO TEXT CONVERSION SUMMARY\<newline>'' @
       ''=====================================\<newline>\<newline>'' @
       ''Processing Date: '' @ localeDate env log @ ''\<newline>'' @
       ''Total Files: '' @ decimal (length rs + length es) @ ''\<newline>'') @
      (''Successful: '' @ decimal (length rs) @ ''\<newline>'' @
       ''Failed: '' @ decimal (length es) @ ''\<newline>'') @ post"
    by (simp add: generateSummary_def Let_def)
  then show ?thesis
    unfolding sublist_def by blast
qed

lemma summary_failures:
  assumes "i < length es"
  shows "sublist (decimal (i + 1) @ ''. '' @ failed_input (es ! i) @ ''\<newline>'' @
                  ''   Error: '' @ failed_error (es ! i) @ ''\<newline>'')
           (generateSummary env log rs es opts)"
proof -
  have some: "0 < length es" using assms by (cases es) simp_all
  have entry: "sublist (decimal (i + 1) @ ''. '' @ failed_input (es ! i) @ ''\<newline>'' @
                  ''   Error: '' @ failed_error (es ! i) @ ''\<newline>'') (failure_lines 0 es)"
    using failure_lines_entry [OF assms, of 0] by simp
  show ?thesis
    unfolding generateSummary_def Let_def
    by (simp only: some if_True) (intro sublist_after entry)
qed

text \<open>
  Claim C4. When the output folder is there or can be created, the input resolves to a
  non-empty list of documents, the concurrency limit is at least one and the summary can
  be written, \<open>batchProcessPdfs\<close> returns normally, whatever the pipelines of the
  documents do. Every document ends either in the results or in the failures, once.
  Every document is accounted for: its pipeline ran and settled, and its outcome is
  recorded under its file name, a result file among the results and the message of any
  exception among the failures. In particular a document whose source is missing is
  among the failures with the message \<open>PDF file not found: <path>\<close>. The last
  action is writing the summary to \<open>batch_processing_summary.txt\<close> in the output
  folder; the summary gives the number of successes and of failures and, for every
  failure, its file name and its error message.
\<close>

theorem batch_survives_failures:
  assumes "1 \<le> or_default (bp_concurrent opts) 1"
    and "rearranges sched"
    and "outputFolder = or_default (bp_outputFolder opts) ''batch_ocr_results''"
    and "summaryFile = path_join outputFolder ''batch_processing_summary.txt''"
    and "existsSync env log outputFolder \<or>
         mkdirSync env (log @ [ExistsSync outputFolder]) outputFolder = None"
    and "resolve_pdfs env inputPath (batch_start env outputFolder log) = (Inr pdfFiles, log2)"
    and "pdfFiles \<noteq> []"
    and "\<forall>h summary. writeFileSync env h summaryFile summary = None"
  shows "\<exists>rs es log3.
           batchProcessPdfs env sched inputPath opts log =
             Some (Inr (rs, es, summaryFile),
                   log3 @ [WriteFileSync summaryFile (generateSummary env log3 rs es opts)]) \<and>
           mset (map ok_input rs @ map failed_input es) = mset (map filename pdfFiles) \<and>
           (\<forall>pdf\<in>set pdfFiles. accounted env opts pdf rs es log3) \<and>
           (\<forall>pdf\<in>set pdfFiles. source_missing env pdf \<longrightarrow> reported_missing pdf es) \<and>
           sublist (''Successful: '' @ decimal (length rs) @ ''\<newline>'' @
                    ''Failed: '' @ decimal (length es) @ ''\<newline>'')
             (generateSummary env log3 rs es opts) \<and>
           (\<forall>i<length es.
              sublist (decimal (i + 1) @ ''. '' @ failed_input (es ! i) @ ''\<newline>'' @
                       ''   Error: '' @ failed_error (es ! i) @ ''\<newline>'')
                (generateSummary env log3 rs es opts))"
proof -
  define c where "c = nat (or_default (bp_concurrent opts) 1)"
  have c: "1 \<le> c" "or_default (bp_concurrent opts) 1 = int c"
    using assms(1) by (simp_all add: c_def)
  let ?init = "\<lparr> results = [], failures = [], trace = log2 \<rparr>"
  let ?st = "fold (run_chunk env sched opts) (chunks_of c pdfFiles) ?init"
  have loop: "process_chunks env sched opts pdfFiles (int c) 0 ?init = Some ?st"
    using process_chunks_eq [OF c(1), of env sched opts pdfFiles 0 ?init] by simp
  have bounded: "\<forall>ch\<in>set (chunks_of c pdfFiles). int (length ch) \<le> int c"
    using chunks_of_sizes [of _ c pdfFiles] by auto
  obtain evs extra where eff:
      "mset (entry_names ?st) =
         mset (map filename (concat (chunks_of c pdfFiles))) + mset (entry_names ?init)"
      "\<forall>pdf\<in>set (concat (chunks_of c pdfFiles)). source_missing env pdf \<longrightarrow>
         reported_missing pdf (failures ?st)"
    using run_chunks_effect [OF assms(2) bounded, of env opts ?init] by auto
  have all: "concat (chunks_of c pdfFiles) = pdfFiles"
    using concat_chunks_of [OF c(1)] .
  have every: "\<forall>pdf\<in>set pdfFiles.
                 accounted env opts pdf (results ?st) (failures ?st) (trace ?st)"
    using run_chunks_account [OF assms(2), of _ "chunks_of c pdfFiles" env opts ?init] all
    by simp
  have made: "(if \<not> existsSync env log outputFolder
               then (mkdirSync env (log @ [ExistsSync outputFolder]) outputFolder,
                     (log @ [ExistsSync outputFolder]) @ [MkdirSync outputFolder])
               else (None, log @ [ExistsSync outputFolder])) =
              (None, batch_start env outputFolder log)"
    using assms(5) by (auto simp: batch_start_def)
  have run: "batchProcessPdfs env sched inputPath opts log =
      Some (Inr (results ?st, failures ?st, summaryFile),
            trace ?st @ [WriteFileSync summaryFile
                           (generateSummary env (trace ?st) (results ?st) (failures ?st) opts)])"
    unfolding batchProcessPdfs_def Let_def assms(3) [symmetric] assms(4) [symmetric]
    by (simp add: made assms(6) assms(7) assms(8) c(2) loop)
  have names: "mset (map ok_input (results ?st) @ map failed_input (failures ?st)) =
                 mset (map filename pdfFiles)"
    using eff(1) all by (simp add: entry_names_def)
  show ?thesis
    using run names every eff(2) all summary_counts summary_failures
    by (intro exI [of _ "results ?st"] exI [of _ "failures ?st"] exI [of _ "trace ?st"]) simp
qed

lemma rearranges_rev: "rearranges (\<lambda>h. rev)"
  by (simp add: rearranges_def)


text \<open>
  The theorem on a folder of three documents of which the second is missing, with a
  limit of two: two successes, one failure, and the summary that is written. On the
  same folder with every source present and the OCR engine rejecting the page of the
  second document with \<open>null\<close>, that document is the one failure, with the message
  of the \<open>TypeError\<close>, and the other two succeed.
\<close>

theorem batch_survives_failures_witness:
  "1 \<le> or_default (bp_concurrent batch_of_two) 1 \<and> rearranges (\<lambda>h. rev) \<and>
   existsSync three_pdfs [] ''out'' \<and>
   resolve_pdfs three_pdfs ''in'' (batch_start three_pdfs ''out'' []) =
     (Inr three_docs, [ExistsSync ''out'', StatSync ''in'', ReaddirSync ''in'']) \<and>
   source_missing three_pdfs (pdf_of_entry ''in'' ''b.pdf'') \<and>
   map_option fst (batchProcessPdfs three_pdfs (\<lambda>h. rev) ''in'' batch_of_two []) =
     Some (Inr ([\<lparr> ok_input = ''a.pdf'', ok_output = ''out/a_ocr.txt'', ok_duration = ''0.0'' \<rparr>,
                 \<lparr> ok_input = ''c.PDF'', ok_output = ''out/c.PDF_ocr.txt'', ok_duration = ''0.0'' \<rparr>],
                [\<lparr> failed_input = ''b.pdf'', failed_error = ''PDF file not found: in/b.pdf'',
                   failed_duration = ''0.0'' \<rparr>],
                ''out/batch_processing_summary.txt'')) \<and>
   map_option (\<lambda>r. last (snd r)) (batchProcessPdfs three_pdfs (\<lambda>h. rev) ''in'' batch_of_two []) =
     Some (WriteFileSync ''out/batch_processing_summary.txt''
       ''BATCH PDF TO TEXT CONVERSION SUMMARY\<newline>=====================================\<newline>\<newline>Processing Date: 03/11/2026, 10:00:00\<newline>Total Files: 3\<newline>Successful: 2\<newline>Failed: 1\<newline>Success Rate: 66.7%\<newline>Total Duration: 0.0 seconds\<newline>Average per file: 0.0 seconds\<newline>\<newline>SETTINGS:\<newline>---------\<newline>Language: ara\<newline>Image Format: png\<newline>DPI: 300\<newline>Keep Images: No\<newline>Concurrent: 2\<newline>\<newline>SUCCESSFUL CONVERSIONS:\<newline>----------------------\<newline>1. a.pdf\<newline>   Output: a_ocr.txt\<newline>   Duration: 0.0s\<newline>\<newline>2. c.PDF\<newline>   Output: c.PDF_ocr.txt\<newline>   Duration: 0.0s\<newline>\<newline>FAILED CONVERSIONS:\<newline>------------------\<newline>1. b.pdf\<newline>   Error: PDF file not found: in/b.pdf\<newline>   Duration: 0.0s\<newline>\<newline>'') \<and>
   map_option fst (batchProcessPdfs null_page (\<lambda>h. rev) ''in'' batch_of_two []) =
     Some (Inr ([\<lparr> ok_input = ''a.pdf'', ok_output = ''out/a_ocr.txt'', ok_duration = ''0.0'' \<rparr>,
                 \<lparr> ok_input = ''c.PDF'', ok_output = ''out/c.PDF_ocr.txt'', ok_duration = ''0.0'' \<rparr>],
                [\<lparr> failed_input = ''b.pdf'',
                   failed_error = ''Cannot read properties of null (reading 'message')'',
                   failed_duration = ''0.0'' \<rparr>],
                ''out/batch_processing_summary.txt''))"
proof -
  have other: "map_option fst (batchProcessPdfs null_page (\<lambda>h. rev) ''in'' batch_of_two []) =
     Some (Inr ([\<lparr> ok_input = ''a.pdf'', ok_output = ''out/a_ocr.txt'', ok_duration = ''0.0'' \<rparr>,
                 \<lparr> ok_input = ''c.PDF'', ok_output = ''out/c.PDF_ocr.txt'', ok_duration = ''0.0'' \<rparr>],
                [\<lparr> failed_input = ''b.pdf'',
                   failed_error = ''Cannot read properties of null (reading 'message')'',
                   failed_duration = ''0.0'' \<rparr>],
                ''out/batch_processing_summary.txt''))"
    by code_simp
  have h1: "1 \<le> or_default (bp_concurrent batch_of_two) 1"
    by (simp add: batch_of_two_def or_default_def)
  have h3: "''out'' = or_default (bp_outputFolder batch_of_two) ''batch_ocr_results''"
    by (simp add: batch_of_two_def or_default_def)
  have h4: "''out/batch_processing_summary.txt'' = path_join ''out'' ''batch_processing_summary.txt''"
    by (simp add: path_join_def)
  have ex: "existsSync three_pdfs [] ''out''"
    by (simp add: three_pdfs_def sample_env_def)
  then have h5: "existsSync three_pdfs [] ''out'' \<or>
                 mkdirSync three_pdfs ([] @ [ExistsSync ''out'']) ''out'' = None"
    by simp
  have h6: "resolve_pdfs three_pdfs ''in'' (batch_start three_pdfs ''out'' []) =
              (Inr three_docs, [ExistsSync ''out'', StatSync ''in'', ReaddirSync ''in''])"
    by code_simp
  have h7: "three_docs \<noteq> []"
    by (simp add: three_docs_def)
  have h8: "\<forall>h summary. writeFileSync three_pdfs h ''out/batch_processing_summary.txt'' summary = None"
    by (simp add: three_pdfs_def sample_env_def)
  have missing: "source_missing three_pdfs (pdf_of_entry ''in'' ''b.pdf'')"
    by (simp add: source_missing_def three_pdfs_def sample_env_def pdf_of_entry_def path_join_def)
  have result: "map_option fst (batchProcessPdfs three_pdfs (\<lambda>h. rev) ''in'' batch_of_two []) =
     Some (Inr ([\<lparr> ok_input = ''a.pdf'', ok_output = ''out/a_ocr.txt'', ok_duration = ''0.0'' \<rparr>,
                 \<lparr> ok_input = ''c.PDF'', ok_output = ''out/c.PDF_ocr.txt'', ok_duration = ''0.0'' \<rparr>],
                [\<lparr> failed_input = ''b.pdf'', failed_error = ''PDF file not found: in/b.pdf'',
                   failed_duration = ''0.0'' \<rparr>],
                ''out/batch_processing_summary.txt''))"
    by code_simp
  have report: "map_option (\<lambda>r. last (snd r)) (batchProcessPdfs three_pdfs (\<lambda>h. rev) ''in'' batch_of_two []) =
     Some (WriteFileSync ''out/batch_processing_summary.txt''
       ''BATCH PDF TO TEXT CONVERSION SUMMARY\<newline>=====================================\<newline>\<newline>Processing Date: 03/11/2026, 10:00:00\<newline>Total Files: 3\<newline>Successful: 2\<newline>Failed: 1\<newline>Success Rate: 66.7%\<newline>Total Duration: 0.0 seconds\<newline>Average per file: 0.0 seconds\<newline>\<newline>SETTINGS:\<newline>---------\<newline>Language: ara\<newline>Image Format: png\<newline>DPI: 300\<newline>Keep Images: No\<newline>Concurrent: 2\<newline>\<newline>SUCCESSFUL CONVERSIONS:\<newline>----------------------\<newline>1. a.pdf\<newline>   Output: a_ocr.txt\<newline>   Duration: 0.0s\<newline>\<newline>2. c.PDF\<newline>   Output: c.PDF_ocr.txt\<newline>   Duration: 0.0s\<newline>\<newline>FAILED CONVERSIONS:\<newline>------------------\<newline>1. b.pdf\<newline>   Error: PDF file not found: in/b.pdf\<newline>   Duration: 0.0s\<newline>\<newline>'')"
    by code_simp
  obtain rs es log3 where
    "batchProcessPdfs three_pdfs (\<lambda>h. rev) ''in'' batch_of_two [] =
       Some (Inr (rs, es, ''out/batch_processing_summary.txt''),
             log3 @ [WriteFileSync ''out/batch_processing_summary.txt''
                       (generateSummary three_pdfs log3 rs es batch_of_two)])"
    using batch_survives_failures [OF h1 rearranges_rev h3 h4 h5 h6 h7 h8] by blast
  then show ?thesis
    using h1 rearranges_rev ex h6 missing result report other by simp
qed

end
